theory Spec2Isabelle
  imports Main
begin

section \<open>Data model of the request dispatcher (package ghttp)\<close>

text \<open>
  The development embeds the per-request dispatch code of
  \<^verbatim>\<open>net/ghttp/ghttp_server_x.go\<close>: \<^verbatim>\<open>CServeHTTP\<close>, \<^verbatim>\<open>handleHTTPRequest\<close>,
  \<^verbatim>\<open>HandleContext\<close> and \<^verbatim>\<open>middleware.reset\<close>. The Go code mutates one
  \<^verbatim>\<open>*Request\<close>; here the request is passed explicitly and returned updated. A Go
  panic is a value of the result type, together with the request as it was left when
  the panic started to unwind. Go's \<^verbatim>\<open>int\<close> is \<open>int\<close> here: the dispatcher copies,
  compares and zeroes such numbers and computes nothing with them. The other functions of
  the file (\<^verbatim>\<open>InitSession\<close>, \<^verbatim>\<open>HandlePreBindItems\<close>, \<^verbatim>\<open>ServerProcessInit\<close>) hand
  over to other packages at once and are not embedded.
\<close>

subsection \<open>Errors, codes and panic values\<close>

text \<open>
  Modelled from the spec: package \<^verbatim>\<open>gcode\<close> is not among the source files
  embedded here. The dispatcher only compares a code with \<^verbatim>\<open>gcode.CodeNil\<close> and wraps with
  \<^verbatim>\<open>gcode.CodeInternalError\<close> (the spec's nil code and internal-error code); every
  other code is \<open>CodeOther\<close> with its number.
\<close>

datatype gcode = CodeNil | CodeInternalError | CodeOther int

text \<open>
  A Go \<^verbatim>\<open>error\<close> value, as far as the dispatcher looks at it: the code that
  \<^verbatim>\<open>gerror.Code\<close> finds in it (\<open>CodeNil\<close> when it carries none) and the text of
  \<^verbatim>\<open>Error()\<close>.
\<close>

datatype goerror = GoError gcode string

fun gerror_Code :: "goerror \<Rightarrow> gcode" where
  "gerror_Code (GoError c t) = c"

fun Error :: "goerror \<Rightarrow> string" where
  "Error (GoError c t) = t"

text \<open>
  Modelled from the spec: \<^verbatim>\<open>gerror.WrapCodeSkip\<close> and \<^verbatim>\<open>gerror.NewCodeSkipf\<close> are
  not among the source files embedded here. Per the spec an error lacking a code is
  wrapped as an internal-error code, and a non-error value is wrapped as an internal error with a
  formatted message. The wrapping text passed by the dispatcher is empty, so the wrapped
  error keeps the text of the error inside.
\<close>

definition gerror_WrapCodeSkip :: "gcode \<Rightarrow> goerror \<Rightarrow> string \<Rightarrow> goerror" where
  "gerror_WrapCodeSkip code err text =
     GoError code (if text = [] then Error err else text @ '': '' @ Error err)"

definition gerror_NewCodeSkipf :: "gcode \<Rightarrow> string \<Rightarrow> goerror" where
  "gerror_NewCodeSkipf code formatted = GoError code formatted"

text \<open>
  The value a panic carries: either it satisfies the type assertion
  \<^verbatim>\<open>exception.(error)\<close>, or it is some other value, kept as its \<^verbatim>\<open>%+v\<close> rendering.
\<close>

datatype exception = ExcError goerror | ExcValue string

datatype 'a outcome = Normal 'a | Panic exception 'a

fun andThen :: "'a outcome \<Rightarrow> ('a \<Rightarrow> 'a outcome) \<Rightarrow> 'a outcome" where
  "andThen (Normal a) f = f a"
| "andThen (Panic e a) f = Panic e a"

fun final :: "'a outcome \<Rightarrow> 'a" where
  "final (Normal a) = a"
| "final (Panic e a) = a"

fun returns :: "'a outcome \<Rightarrow> bool" where
  "returns (Normal a) = True"
| "returns (Panic e a) = False"

subsection \<open>The request context\<close>

datatype HookName = HookBeforeServe | HookAfterServe | HookBeforeOutput | HookAfterOutput

record staticFile =
  Path :: string
  IsDir :: bool

record middleware =
  served :: bool
  handlerIndex :: int
  handlerMDIndex :: int

record ghttp_Response =
  Status :: int
  buffer :: string
  Header :: "(string \<times> string) list"

record gsession_Session =
  dirty :: bool
  sessionId :: string

record ghttp_Cookie =
  cookieSessionId :: "string option"

text \<open>
  The \<^verbatim>\<open>*http.Request\<close> of the standard library, reduced to what the dispatcher
  reads and writes: the two forms of the URL path, the body-size limit put on the body,
  the inbound session id (read by \<^verbatim>\<open>GetSessionId\<close>) and whether an outbound
  \<^verbatim>\<open>Response\<close> handle is attached.
\<close>

record http_Request =
  URLPath :: string
  URLRawPath :: string
  BodyLimit :: "int option"
  InboundSessionId :: string
  HasResponse :: bool

record 'h ghttp_Request =
  Request :: http_Request
  Response :: ghttp_Response
  Session :: gsession_Session
  Cookie :: ghttp_Cookie
  Middleware :: middleware
  StaticFile :: "staticFile option"
  error :: "goerror option"
  exited :: bool
  isFileRequest :: bool
  handlers :: "'h list"
  serveHandler :: "'h option"
  hasHookHandler :: bool
  hasServeHandler :: bool
  LeaveTime :: int

subsection \<open>The journal of calls the dispatcher makes\<close>

text \<open>
  Everything the dispatcher calls outside itself is written to a journal, each call with
  the request as it was when the call was made. The journal is what theorems about
  ``is invoked'', ``is logged'' and ``is written'' talk about. Handlers run behind these
  calls; they change the request, never the journal.
\<close>

datatype 'f call =
    CallHookHandler HookName
  | ServeFile "staticFile option"
  | MiddlewareNext
  | StatusHandler 'f
  | HandleErrorLog goerror
  | HandleAccessLog
  | SessionClose
  | RequestBodyClose
  | ResponseBodyClose
  | CookieSetSessionId string
  | CookieFlush
  | ResponseFlush

type_synonym ('h, 'f) journal = "('f call \<times> 'h ghttp_Request) list"

type_synonym ('h, 'f) state = "'h ghttp_Request \<times> ('h, 'f) journal"

subsection \<open>The server: configuration and collaborators\<close>

record ServerConfig =
  ClientMaxBodySize :: int
  Rewrites :: "(string \<times> string) list"
  FileServerEnabled :: bool
  SessionCookieOutput :: bool

text \<open>
  The router, the static file resolver, the hook runner, the file server, the middleware
  chain, the status handler table and the protective wrapper are collaborators whose
  code is not among the source files embedded here. They are parameters of the model: any
  function of the right type may stand for each, and every theorem below holds for all
  of them. A collaborator that runs handler code returns an \<open>outcome\<close>, since
  handler code may panic.
\<close>

record ('h, 'f) Server =
  config :: ServerConfig
  searchStaticFile :: "string \<Rightarrow> staticFile option"
  getHandlersWithCache :: "'h ghttp_Request \<Rightarrow> 'h list \<times> 'h option \<times> bool \<times> bool"
  callHookHandler :: "HookName \<Rightarrow> 'h ghttp_Request \<Rightarrow> 'h ghttp_Request outcome"
  serveFile :: "'h ghttp_Request \<Rightarrow> staticFile option \<Rightarrow> 'h ghttp_Request outcome"
  Middleware_Next :: "'h ghttp_Request \<Rightarrow> 'h ghttp_Request outcome"
  getStatusHandler :: "int \<Rightarrow> 'h ghttp_Request \<Rightarrow> 'f list"
  HandlerFunc :: "'f \<Rightarrow> 'h ghttp_Request \<Rightarrow> 'h ghttp_Request outcome"
  niceCallFunc :: "('h ghttp_Request \<Rightarrow> 'h ghttp_Request outcome) \<Rightarrow>
                   'h ghttp_Request \<Rightarrow> 'h ghttp_Request outcome"
  TimestampMilli :: int

text \<open>A call of a collaborator: the journal gets the call, the request is replaced.\<close>

definition invoke :: "'f call \<Rightarrow> ('h ghttp_Request \<Rightarrow> 'h ghttp_Request outcome) \<Rightarrow>
    ('h, 'f) state \<Rightarrow> ('h, 'f) state outcome" where
  "invoke c f st =
     (case f (fst st) of
        Normal r' \<Rightarrow> Normal (r', snd st @ [(c, fst st)])
      | Panic e r' \<Rightarrow> Panic e (r', snd st @ [(c, fst st)]))"

text \<open>A step of the dispatcher's own on the request; the journal stays.\<close>

definition update :: "('h ghttp_Request \<Rightarrow> 'h ghttp_Request) \<Rightarrow> ('h, 'f) state \<Rightarrow> ('h, 'f) state" where
  "update f st = (f (fst st), snd st)"

text \<open>
  Modelled from the spec: \<^verbatim>\<open>handleErrorLog\<close>, \<^verbatim>\<open>handleAccessLog\<close>,
  \<^verbatim>\<open>Session.Close\<close>, the two \<^verbatim>\<open>Body.Close\<close>, \<^verbatim>\<open>Cookie.Flush\<close> and
  \<^verbatim>\<open>Response.Flush\<close> are not among the source files embedded here. Per the spec they log,
  close and flush; what they log, close and flush is the request as it is when they are
  called. Such a call goes to the journal with that request, and the request stays.
\<close>

definition record_call :: "'f call \<Rightarrow> ('h, 'f) state \<Rightarrow> ('h, 'f) state" where
  "record_call c st = (fst st, snd st @ [(c, fst st)])"

subsection \<open>Accessors of the request and the response\<close>

definition IsExited :: "'h ghttp_Request \<Rightarrow> bool" where
  "IsExited r = exited r"

definition GetError :: "'h ghttp_Request \<Rightarrow> goerror option" where
  "GetError r = error r"

definition GetSessionId :: "'h ghttp_Request \<Rightarrow> string" where
  "GetSessionId r = InboundSessionId (Request r)"

definition BufferLength :: "ghttp_Response \<Rightarrow> nat" where
  "BufferLength resp = length (buffer resp)"

text \<open>
  Modelled from the spec: \<^verbatim>\<open>Response.WriteHeader\<close>, \<^verbatim>\<open>Response.Write\<close> and
  \<^verbatim>\<open>Response.WriteStatus\<close> are not among the source files embedded here. Per the spec the
  first sets the status of the response, the second writes text into the response body
  (the buffer), the third writes a status.
\<close>

definition WriteHeader :: "int \<Rightarrow> ghttp_Response \<Rightarrow> ghttp_Response" where
  "WriteHeader status resp = resp\<lparr>Status := status\<rparr>"

definition Write :: "string \<Rightarrow> ghttp_Response \<Rightarrow> ghttp_Response" where
  "Write content resp = resp\<lparr>buffer := buffer resp @ content\<rparr>"

definition WriteStatus :: "int \<Rightarrow> ghttp_Response \<Rightarrow> ghttp_Response" where
  "WriteStatus status resp = WriteHeader status resp"

definition StatusOK :: int where "StatusOK = 200"
definition StatusNotFound :: int where "StatusNotFound = 404"
definition StatusInternalServerError :: int where "StatusInternalServerError = 500"

text \<open>
  Modelled from the spec: the session and the cookie are not among the source files
  embedded here. Per the spec the session has a dirty flag and an id, and the session id is
  written to the outbound cookie.
\<close>

definition IsDirty :: "gsession_Session \<Rightarrow> bool" where
  "IsDirty s = dirty s"

definition MustId :: "gsession_Session \<Rightarrow> string" where
  "MustId s = sessionId s"

definition SetSessionId :: "string \<Rightarrow> ghttp_Cookie \<Rightarrow> ghttp_Cookie" where
  "SetSessionId i c = c\<lparr>cookieSessionId := Some i\<rparr>"

section \<open>The dispatcher\<close>

subsection \<open>\<^verbatim>\<open>middleware.reset\<close>\<close>

definition reset :: "middleware \<Rightarrow> middleware" where
  "reset m = m\<lparr>served := False, handlerIndex := 0, handlerMDIndex := 0\<rparr>"

subsection \<open>\<^verbatim>\<open>handleHTTPRequest\<close>\<close>

text \<open>
  The static lookup, \<^verbatim>\<open>if s.config.FileServerEnabled { ... }\<close>.
\<close>

definition searchStatic :: "('h, 'f) Server \<Rightarrow> http_Request \<Rightarrow> 'h ghttp_Request \<Rightarrow> 'h ghttp_Request" where
  "searchStatic s r request =
     (if FileServerEnabled (config s) then
        (let request1 = request\<lparr>StaticFile := searchStaticFile s (URLPath r)\<rparr>
         in if StaticFile request1 \<noteq> None then request1\<lparr>isFileRequest := True\<rparr> else request1)
      else request)"

text \<open>The dynamic lookup: the four results of the router are stored in the request.\<close>

definition searchDynamic :: "('h, 'f) Server \<Rightarrow> 'h ghttp_Request \<Rightarrow> 'h ghttp_Request" where
  "searchDynamic s request =
     (case getHandlersWithCache s request of
        (hs, sh, hasHook, hasServe) \<Rightarrow>
          request\<lparr>handlers := hs, serveHandler := sh,
                  hasHookHandler := hasHook, hasServeHandler := hasServe\<rparr>)"

text \<open>``Check the service type static or dynamic for current request.''\<close>

definition checkServiceType :: "'h ghttp_Request \<Rightarrow> 'h ghttp_Request" where
  "checkServiceType request =
     (if StaticFile request \<noteq> None \<and> IsDir (the (StaticFile request)) \<and> hasServeHandler request
      then request\<lparr>isFileRequest := False\<rparr> else request)"

text \<open>``Core serving handling.'', the body of the first \<^verbatim>\<open>if !request.IsExited()\<close>.\<close>

definition coreServing :: "('h, 'f) Server \<Rightarrow> ('h, 'f) state \<Rightarrow> ('h, 'f) state outcome" where
  "coreServing s st =
     (let request = fst st in
      if isFileRequest request then
        invoke (ServeFile (StaticFile request)) (\<lambda>q. serveFile s q (StaticFile q)) st
      else if length (handlers request) > 0 then
        invoke MiddlewareNext (Middleware_Next s) st
      else if StaticFile request \<noteq> None \<and> IsDir (the (StaticFile request)) then
        invoke (ServeFile (StaticFile request)) (\<lambda>q. serveFile s q (StaticFile q)) st
      else if length (Header (Response request)) = 0 \<and>
              Status (Response request) = 0 \<and>
              BufferLength (Response request) = 0 then
        Normal (update (\<lambda>q. q\<lparr>Response := WriteHeader StatusNotFound (Response q)\<rparr>) st)
      else Normal st)"

definition handleHTTPRequest :: "('h, 'f) Server \<Rightarrow> http_Request \<Rightarrow> ('h, 'f) state \<Rightarrow> ('h, 'f) state outcome" where
  "handleHTTPRequest s r st0 =
     (let st1 = update (searchStatic s r) st0;
          st2 = update (searchDynamic s) st1;
          st3 = update checkServiceType st2
      in andThen (invoke (CallHookHandler HookBeforeServe) (callHookHandler s HookBeforeServe) st3) (\<lambda>st4.
         andThen (if \<not> IsExited (fst st4) then coreServing s st4 else Normal st4) (\<lambda>st5.
         andThen (if \<not> IsExited (fst st5)
                  then invoke (CallHookHandler HookAfterServe) (callHookHandler s HookAfterServe) st5
                  else Normal st5) (\<lambda>st6.
         if \<not> IsExited (fst st6)
         then invoke (CallHookHandler HookBeforeOutput) (callHookHandler s HookBeforeOutput) st6
         else Normal st6))))"

subsection \<open>\<^verbatim>\<open>HandleContext\<close>\<close>

text \<open>
  The two indices are read before the reset and written back after
  \<^verbatim>\<open>handleHTTPRequest\<close> has returned. Nothing is deferred: when the replay panics,
  the two assignments after it are not reached.
\<close>

definition HandleContext :: "('h, 'f) Server \<Rightarrow> ('h, 'f) state \<Rightarrow> ('h, 'f) state outcome" where
  "HandleContext s st =
     (let request = fst st;
          oldHandlerIndex = handlerIndex (Middleware request);
          oldHandlerMDIndx = handlerMDIndex (Middleware request);
          st1 = update (\<lambda>q. q\<lparr>Middleware := reset (Middleware q)\<rparr>) st
      in andThen (handleHTTPRequest s (Request (fst st1)) st1) (\<lambda>st2.
         Normal (update (\<lambda>q. q\<lparr>Middleware := (Middleware q)\<lparr>handlerIndex := oldHandlerIndex,
                                                              handlerMDIndex := oldHandlerMDIndx\<rparr>\<rparr>) st2)))"

subsection \<open>\<^verbatim>\<open>CServeHTTP\<close>\<close>

text \<open>
  Modelled from the spec: \<^verbatim>\<open>newRequest\<close> is not among the source files embedded here. Per
  the spec it constructs the request context of one request: no error, not exited, no
  static match, no status, an empty buffer, the cursor of the middleware chain at its
  start, and a session that is keyed by the inbound session id and not dirty. The
  \<^verbatim>\<open>http.ResponseWriter\<close> is given by the header it holds.
\<close>

type_synonym http_ResponseWriter = "(string \<times> string) list"

definition newRequest :: "('h, 'f) Server \<Rightarrow> http_Request \<Rightarrow> http_ResponseWriter \<Rightarrow> 'h ghttp_Request" where
  "newRequest s r w =
     \<lparr>Request = r,
      Response = \<lparr>Status = 0, buffer = [], Header = w\<rparr>,
      Session = \<lparr>dirty = False, sessionId = InboundSessionId r\<rparr>,
      Cookie = \<lparr>cookieSessionId = None\<rparr>,
      Middleware = \<lparr>served = False, handlerIndex = 0, handlerMDIndex = 0\<rparr>,
      StaticFile = None,
      error = None,
      exited = False,
      isFileRequest = False,
      handlers = [],
      serveHandler = None,
      hasHookHandler = False,
      hasServeHandler = False,
      LeaveTime = 0\<rparr>"

text \<open>``HTTP status checking.''\<close>

definition statusChecking :: "'h ghttp_Request \<Rightarrow> 'h ghttp_Request" where
  "statusChecking request =
     (if Status (Response request) = 0 then
        if StaticFile request \<noteq> None \<or> served (Middleware request) \<or>
           length (buffer (Response request)) > 0 then
          request\<lparr>Response := WriteHeader StatusOK (Response request)\<rparr>
        else
          (case GetError request of
             Some err \<Rightarrow>
               (let request1 =
                      (if BufferLength (Response request) = 0
                       then request\<lparr>Response := Write (Error err) (Response request)\<rparr>
                       else request)
                in request1\<lparr>Response := WriteHeader StatusInternalServerError (Response request1)\<rparr>)
           | None \<Rightarrow> request\<lparr>Response := WriteHeader StatusNotFound (Response request)\<rparr>)
      else request)"

text \<open>
  ``HTTP status handler.'' The loop over \<^verbatim>\<open>statusFuncArray\<close>: each handler is
  called through \<^verbatim>\<open>niceCallFunc\<close>, and the loop is left when the request is exited
  after a call. A panic that gets through the wrapper ends the loop as well.
\<close>

fun statusHandlerLoop :: "('h, 'f) Server \<Rightarrow> 'f list \<Rightarrow> ('h, 'f) state \<Rightarrow> ('h, 'f) state outcome" where
  "statusHandlerLoop s [] st = Normal st"
| "statusHandlerLoop s (f # fs) st =
     andThen (invoke (StatusHandler f) (niceCallFunc s (HandlerFunc s f)) st) (\<lambda>st1.
       if IsExited (fst st1) then Normal st1 else statusHandlerLoop s fs st1)"

definition statusHandling :: "('h, 'f) Server \<Rightarrow> ('h, 'f) state \<Rightarrow> ('h, 'f) state outcome" where
  "statusHandling s st =
     (let request = fst st in
      if Status (Response request) \<noteq> StatusOK then
        statusHandlerLoop s (getStatusHandler s (Status (Response request)) request) st
      else Normal st)"

text \<open>``Automatically set the session id to cookie ...''\<close>

definition sessionCookie :: "('h, 'f) Server \<Rightarrow> ('h, 'f) state \<Rightarrow> ('h, 'f) state" where
  "sessionCookie s st =
     (let request = fst st in
      if SessionCookieOutput (config s) \<and>
         IsDirty (Session request) \<and>
         MustId (Session request) \<noteq> GetSessionId request then
        update (\<lambda>q. q\<lparr>Cookie := SetSessionId (MustId (Session q)) (Cookie q)\<rparr>)
          (record_call (CookieSetSessionId (MustId (Session request))) st)
      else st)"

text \<open>
  The body of \<^verbatim>\<open>CServeHTTP\<close> after the request has been created, in two parts:
  from \<^verbatim>\<open>s.handleHTTPRequest(request, r)\<close> to the end of the status handler loop,
  and from the session cookie to the hook \<^verbatim>\<open>HookAfterOutput\<close>.
\<close>

definition serveStatus :: "('h, 'f) Server \<Rightarrow> http_Request \<Rightarrow> ('h, 'f) state \<Rightarrow> ('h, 'f) state outcome" where
  "serveStatus s r st0 =
     andThen (handleHTTPRequest s r st0) (\<lambda>st1.
       statusHandling s (update statusChecking st1))"

definition writeOutput :: "('h, 'f) Server \<Rightarrow> ('h, 'f) state \<Rightarrow> ('h, 'f) state outcome" where
  "writeOutput s st3 =
     (let st4 = sessionCookie s st3;
          st5 = record_call CookieFlush st4;
          st6 = record_call ResponseFlush st5
      in if \<not> IsExited (fst st6)
         then invoke (CallHookHandler HookAfterOutput) (callHookHandler s HookAfterOutput) st6
         else Normal st6)"

definition serveRequest :: "('h, 'f) Server \<Rightarrow> http_Request \<Rightarrow> ('h, 'f) state \<Rightarrow> ('h, 'f) state outcome" where
  "serveRequest s r st0 = andThen (serveStatus s r st0) (writeOutput s)"

text \<open>
  The error a recovered panic is logged as: an error with a code as it is, an error
  without a code wrapped under the internal-error code, any other value as a new
  internal error made of its rendering.
\<close>

definition recoveredError :: "exception \<Rightarrow> goerror" where
  "recoveredError exc =
     (case exc of
        ExcError v \<Rightarrow>
          (if gerror_Code v \<noteq> CodeNil then v
           else gerror_WrapCodeSkip CodeInternalError v [])
      | ExcValue x \<Rightarrow> gerror_NewCodeSkipf CodeInternalError x)"

text \<open>
  The deferred function. It runs whether the body returned or panicked.
  \<^verbatim>\<open>recover()\<close> is only called when no error is attached to the request; when an
  error is attached and the body panicked, the panic is not recovered and goes on
  unwinding after the deferred function is done. Errors of the three \<^verbatim>\<open>Close\<close>
  calls only go to the internal debug log, which is left out.
\<close>

definition errorLogHandling :: "('h, 'f) state outcome \<Rightarrow> ('h, 'f) state \<Rightarrow> ('h, 'f) state outcome" where
  "errorLogHandling out st =
     (case error (fst st) of
        Some err \<Rightarrow>
          (case out of
             Normal _ \<Rightarrow> Normal (record_call (HandleErrorLog err) st)
           | Panic exc _ \<Rightarrow> Panic exc (record_call (HandleErrorLog err) st))
      | None \<Rightarrow>
          (case out of
             Normal _ \<Rightarrow> Normal st
           | Panic exc _ \<Rightarrow>
               (let st1 = update (\<lambda>q. q\<lparr>Response := WriteStatus StatusInternalServerError (Response q)\<rparr>) st
                in Normal (record_call (HandleErrorLog (recoveredError exc)) st1))))"

definition closing :: "('h, 'f) state \<Rightarrow> ('h, 'f) state" where
  "closing st =
     (let st1 = record_call HandleAccessLog st;
          st2 = record_call SessionClose st1;
          st3 = record_call RequestBodyClose st2
      in if HasResponse (Request (fst st3)) then record_call ResponseBodyClose st3 else st3)"

definition deferred :: "('h, 'f) Server \<Rightarrow> ('h, 'f) state outcome \<Rightarrow> ('h, 'f) state outcome" where
  "deferred s out =
     (let st0 = update (\<lambda>q. q\<lparr>LeaveTime := TimestampMilli s\<rparr>) (final out)
      in case errorLogHandling out st0 of
           Normal st1 \<Rightarrow> Normal (closing st1)
         | Panic exc st1 \<Rightarrow> Panic exc (closing st1))"

text \<open>The request as \<^verbatim>\<open>CServeHTTP\<close> prepares it before the request context is made.\<close>

definition prepare :: "('h, 'f) Server \<Rightarrow> http_Request \<Rightarrow> http_Request" where
  "prepare s r =
     (let r1 = (if ClientMaxBodySize (config s) > 0
                then r\<lparr>BodyLimit := Some (ClientMaxBodySize (config s))\<rparr> else r);
          r2 = (if URLRawPath r1 \<noteq> [] then r1\<lparr>URLPath := URLRawPath r1\<rparr> else r1)
      in if length (Rewrites (config s)) > 0 then
           (case map_of (Rewrites (config s)) (URLPath r2) of
              Some rewrite \<Rightarrow> r2\<lparr>URLPath := rewrite\<rparr>
            | None \<Rightarrow> r2)
         else r2)"

definition CServeHTTP :: "('h, 'f) Server \<Rightarrow> http_ResponseWriter \<Rightarrow> http_Request \<Rightarrow> ('h, 'f) state outcome" where
  "CServeHTTP s w r =
     (let r1 = prepare s r;
          request = newRequest s r1 w
      in deferred s (serveRequest s r1 (request, [])))"

subsection \<open>The older variant of \<^verbatim>\<open>CServeHTTP\<close>\<close>

text \<open>
  The repository holds a second, older text of \<^verbatim>\<open>CServeHTTP\<close>, in which the body of
  \<^verbatim>\<open>handleHTTPRequest\<close> stands in the function itself and the error log routine is
  \<^verbatim>\<open>cHandleErrorLog\<close> in place of \<^verbatim>\<open>handleErrorLog\<close>. The journal entry
  \<open>HandleErrorLog\<close> is the call of the error log routine, whichever of the two it is.
\<close>

definition serveRequest_inline :: "('h, 'f) Server \<Rightarrow> http_Request \<Rightarrow> ('h, 'f) state \<Rightarrow> ('h, 'f) state outcome" where
  "serveRequest_inline s r st0 =
     (let st1 = update (searchStatic s r) st0;
          st2 = update (searchDynamic s) st1;
          st3 = update checkServiceType st2
      in andThen (invoke (CallHookHandler HookBeforeServe) (callHookHandler s HookBeforeServe) st3) (\<lambda>st4.
         andThen (if \<not> IsExited (fst st4) then coreServing s st4 else Normal st4) (\<lambda>st5.
         andThen (if \<not> IsExited (fst st5)
                  then invoke (CallHookHandler HookAfterServe) (callHookHandler s HookAfterServe) st5
                  else Normal st5) (\<lambda>st6.
         andThen (if \<not> IsExited (fst st6)
                  then invoke (CallHookHandler HookBeforeOutput) (callHookHandler s HookBeforeOutput) st6
                  else Normal st6) (\<lambda>st7.
         andThen (statusHandling s (update statusChecking st7)) (\<lambda>st8.
           (let st9 = sessionCookie s st8;
                st10 = record_call CookieFlush st9;
                st11 = record_call ResponseFlush st10
            in if \<not> IsExited (fst st11)
               then invoke (CallHookHandler HookAfterOutput) (callHookHandler s HookAfterOutput) st11
               else Normal st11)))))))"

definition CServeHTTP_inline :: "('h, 'f) Server \<Rightarrow> http_ResponseWriter \<Rightarrow> http_Request \<Rightarrow> ('h, 'f) state outcome" where
  "CServeHTTP_inline s w r =
     (let r1 = prepare s r;
          request = newRequest s r1 w
      in deferred s (serveRequest_inline s r1 (request, [])))"

section \<open>Reading the journal\<close>

fun isErrorLog :: "'f call \<Rightarrow> bool" where
  "isErrorLog (HandleErrorLog e) = True"
| "isErrorLog c = False"

fun isCookieSetSessionId :: "'f call \<Rightarrow> bool" where
  "isCookieSetSessionId (CookieSetSessionId i) = True"
| "isCookieSetSessionId c = False"

fun isResponseFlush :: "'f call \<Rightarrow> bool" where
  "isResponseFlush ResponseFlush = True"
| "isResponseFlush c = False"

text \<open>The status the response has at each \<^verbatim>\<open>Response.Flush\<close> of a journal.\<close>

definition flushedStatus :: "('h, 'f) journal \<Rightarrow> int list" where
  "flushedStatus j =
     map (\<lambda>e. Status (Response (snd e))) (filter (\<lambda>e. isResponseFlush (fst e)) j)"

fun panicOf :: "'a outcome \<Rightarrow> exception option" where
  "panicOf (Normal a) = None"
| "panicOf (Panic e a) = Some e"

text \<open>
  The calls of the status handler loop, written down as a list: the handler and the
  request it is called on, for as long as the loop goes on.
\<close>

fun statusCalls :: "('h, 'f) Server \<Rightarrow> 'f list \<Rightarrow> 'h ghttp_Request \<Rightarrow> ('h, 'f) journal" where
  "statusCalls s [] q = []"
| "statusCalls s (f # fs) q =
     (StatusHandler f, q) #
     (case niceCallFunc s (HandlerFunc s f) q of
        Normal q' \<Rightarrow> if IsExited q' then [] else statusCalls s fs q'
      | Panic e q' \<Rightarrow> [])"

text \<open>
  A journal \<open>j'\<close> extends a journal \<open>j\<close> by entries that all satisfy \<open>ok\<close>. The
  entry predicates that follow are the ones the proofs use: a hook is only called on a
  request that is not exited (for \<open>hookGatedAfterFirst\<close>, unless it is the hook
  \<^verbatim>\<open>HookBeforeServe\<close>); a call is neither an error log nor a cookie write; a call is not a flush of the response.
\<close>

definition extendsBy :: "('a \<Rightarrow> bool) \<Rightarrow> 'a list \<Rightarrow> 'a list \<Rightarrow> bool" where
  "extendsBy ok j j' = (\<exists>new. j' = j @ new \<and> list_all ok new)"

fun hookGated :: "'f call \<times> 'h ghttp_Request \<Rightarrow> bool" where
  "hookGated (CallHookHandler h, p) = (IsExited p = False)"
| "hookGated (c, p) = True"

fun hookGatedAfterFirst :: "'f call \<times> 'h ghttp_Request \<Rightarrow> bool" where
  "hookGatedAfterFirst (CallHookHandler h, p) = (h = HookBeforeServe \<or> IsExited p = False)"
| "hookGatedAfterFirst (c, p) = True"

fun quiet :: "'f call \<times> 'h ghttp_Request \<Rightarrow> bool" where
  "quiet (c, p) = (isErrorLog c = False \<and> isCookieSetSessionId c = False)"

fun noCookieSet :: "'f call \<times> 'h ghttp_Request \<Rightarrow> bool" where
  "noCookieSet (c, p) = (isCookieSetSessionId c = False)"

fun noResponseFlush :: "'f call \<times> 'h ghttp_Request \<Rightarrow> bool" where
  "noResponseFlush (c, p) = (isResponseFlush c = False)"

section \<open>A concrete server\<close>

text \<open>
  A small server on which the theorems below are instantiated. It serves a directory
  \<^verbatim>\<open>/static\<close> and a file \<^verbatim>\<open>/static/exists.html\<close>, routes a few paths under
  \<^verbatim>\<open>/api\<close> and \<^verbatim>\<open>/login\<close> to one handler each, and has three fallback
  handlers for status 404, the second of which exits the request. The hook
  \<^verbatim>\<open>HookAfterServe\<close> exits the request on \<^verbatim>\<open>/api/stop\<close>. The file server
  sends a file straight to the connection and leaves the response buffer alone.
\<close>

definition exampleNext :: "nat ghttp_Request \<Rightarrow> nat ghttp_Request outcome" where
  "exampleNext q =
     (let p = URLPath (Request q) in
      if p = ''/api/boom'' then Panic (ExcError (GoError CodeNil ''boom'')) q
      else if p = ''/api/coded'' then Panic (ExcError (GoError (CodeOther 52) ''db'')) q
      else if p = ''/api/value'' then Panic (ExcValue ''42'') q
      else if p = ''/api/silent'' then Normal q
      else if p = ''/api/fail'' then
        Normal (q\<lparr>Middleware := (Middleware q)\<lparr>handlerIndex := 1\<rparr>,
                  error := Some (GoError (CodeOther 52) ''failed'')\<rparr>)
      else if p = ''/login'' then
        Normal (q\<lparr>Middleware := (Middleware q)\<lparr>served := True, handlerIndex := 1\<rparr>,
                  Session := \<lparr>dirty = True, sessionId = ''s-new''\<rparr>,
                  Response := Write ''ok'' (Response q)\<rparr>)
      else
        Normal (q\<lparr>Middleware := (Middleware q)\<lparr>served := True, handlerIndex := 1\<rparr>,
                  Response := Write ''hello'' (Response q)\<rparr>))"

definition exampleServer :: "(nat, nat) Server" where
  "exampleServer =
     \<lparr>config = \<lparr>ClientMaxBodySize = 0, Rewrites = [(''/old'', ''/api/x'')],
                 FileServerEnabled = True, SessionCookieOutput = True\<rparr>,
      searchStaticFile = (\<lambda>p.
        if p = ''/static'' then Some \<lparr>Path = ''/srv/static'', IsDir = True\<rparr>
        else if p = ''/static/exists.html'' then Some \<lparr>Path = ''/srv/static/exists.html'', IsDir = False\<rparr>
        else None),
      getHandlersWithCache = (\<lambda>q.
        if URLPath (Request q) \<in> set [''/static'', ''/api/x'', ''/api/boom'', ''/api/coded'',
             ''/api/value'', ''/api/silent'', ''/api/fail'', ''/api/stop'', ''/login'']
        then ([1], Some 1, True, True) else ([], None, False, False)),
      callHookHandler = (\<lambda>h q.
        if h = HookAfterServe \<and> URLPath (Request q) = ''/api/stop''
        then Normal (q\<lparr>exited := True\<rparr>) else Normal q),
      serveFile = (\<lambda>q f. Normal q),
      Middleware_Next = exampleNext,
      getStatusHandler = (\<lambda>status q. if status = 404 then [1, 2, 3] else []),
      HandlerFunc = (\<lambda>f q.
        if f = 2 then Normal (q\<lparr>exited := True\<rparr>)
        else Normal (q\<lparr>Response := Write ''not found'' (Response q)\<rparr>)),
      niceCallFunc = (\<lambda>f q. f q),
      TimestampMilli = 1000\<rparr>"

definition exampleRequest :: "string \<Rightarrow> http_Request" where
  "exampleRequest p =
     \<lparr>URLPath = p, URLRawPath = [], BodyLimit = None, InboundSessionId = ''s-old'',
      HasResponse = False\<rparr>"

text \<open>
  A request context in the middle of its middleware chain: the cursor stands at
  \<open>(2, 1)\<close>, a handler has served already.
\<close>

definition midChain :: "string \<Rightarrow> bool \<Rightarrow> nat ghttp_Request" where
  "midChain p ex =
     (newRequest exampleServer (exampleRequest p) [])
       \<lparr>Middleware := \<lparr>served = True, handlerIndex = 2, handlerMDIndex = 1\<rparr>,
        exited := ex\<rparr>"

text \<open>
  The request context of a request for path \<open>p\<close> as \<^verbatim>\<open>handleHTTPRequest\<close> leaves
  it, the journal of \<^verbatim>\<open>handleHTTPRequest\<close>, and the journal of the whole of
  \<^verbatim>\<open>CServeHTTP\<close> for that request.
\<close>

definition handled_journal :: "string \<Rightarrow> (nat, nat) journal" where
  "handled_journal p =
     snd (final (handleHTTPRequest exampleServer (exampleRequest p)
       (newRequest exampleServer (exampleRequest p) [], [])))"

definition handled :: "string \<Rightarrow> nat ghttp_Request" where
  "handled p =
     fst (final (handleHTTPRequest exampleServer (exampleRequest p)
       (newRequest exampleServer (exampleRequest p) [], [])))"

definition served_journal :: "string \<Rightarrow> (nat, nat) journal" where
  "served_journal p = snd (final (CServeHTTP exampleServer [] (exampleRequest p)))"

section \<open>Basic facts about states and journals\<close>

lemmas model_defs = update_def invoke_def record_call_def IsExited_def GetError_def
  GetSessionId_def BufferLength_def WriteHeader_def Write_def WriteStatus_def
  StatusOK_def StatusNotFound_def StatusInternalServerError_def IsDirty_def MustId_def
  SetSessionId_def reset_def searchStatic_def searchDynamic_def checkServiceType_def
  coreServing_def handleHTTPRequest_def HandleContext_def newRequest_def
  statusChecking_def statusHandling_def sessionCookie_def serveStatus_def
  writeOutput_def serveRequest_def recoveredError_def errorLogHandling_def closing_def
  deferred_def prepare_def CServeHTTP_def gerror_WrapCodeSkip_def gerror_NewCodeSkipf_def

lemmas example_defs = exampleNext_def exampleServer_def exampleRequest_def midChain_def
  handled_def handled_journal_def served_journal_def flushedStatus_def

lemma snd_update [simp]: "snd (update f st) = snd st"
  by (simp add: update_def)

lemma fst_update [simp]: "fst (update f st) = f (fst st)"
  by (simp add: update_def)

lemma snd_record_call [simp]: "snd (record_call c st) = snd st @ [(c, fst st)]"
  by (simp add: record_call_def)

lemma fst_record_call [simp]: "fst (record_call c st) = fst st"
  by (simp add: record_call_def)

lemma snd_final_invoke [simp]: "snd (final (invoke c f st)) = snd st @ [(c, fst st)]"
  by (simp add: invoke_def split: outcome.splits)

lemma returns_Normal: "returns a \<Longrightarrow> a = Normal (final a)"
  by (cases a) simp_all

lemma panicOf_Panic: "panicOf a = Some e \<Longrightarrow> a = Panic e (final a)"
  by (cases a) simp_all

subsection \<open>The two texts of \<^verbatim>\<open>CServeHTTP\<close> agree\<close>

lemma andThen_assoc: "andThen (andThen a f) g = andThen a (\<lambda>x. andThen (f x) g)"
  by (cases a) simp_all

lemma andThen_Normal [simp]: "andThen a Normal = a"
  by (cases a) simp_all

lemma serveRequest_inline_eq: "serveRequest_inline s r st = serveRequest s r st"
  by (simp add: serveRequest_inline_def serveRequest_def serveStatus_def handleHTTPRequest_def
      writeOutput_def [abs_def] Let_def andThen_assoc)

lemma CServeHTTP_inline_eq: "CServeHTTP_inline s w r = CServeHTTP s w r"
  by (simp add: CServeHTTP_inline_def CServeHTTP_def serveRequest_inline_eq)

subsection \<open>Journals only grow\<close>

lemma extendsBy_refl [simp]: "extendsBy ok j j"
  by (simp add: extendsBy_def)

lemma extendsBy_append: "list_all ok new \<Longrightarrow> extendsBy ok j (j @ new)"
  by (simp add: extendsBy_def)

lemma extendsBy_trans: "extendsBy ok j j' \<Longrightarrow> extendsBy ok j' j'' \<Longrightarrow> extendsBy ok j j''"
  by (auto simp add: extendsBy_def)

lemma extendsBy_Nil: "extendsBy ok [] j \<Longrightarrow> list_all ok j"
  by (simp add: extendsBy_def)

lemma extendsBy_andThen:
  assumes "extendsBy ok j (snd (final a))"
    and "\<And>st. a = Normal st \<Longrightarrow> extendsBy ok (snd st) (snd (final (f st)))"
  shows "extendsBy ok j (snd (final (andThen a f)))"
proof (cases a)
  case (Normal st)
  with assms show ?thesis by (auto intro: extendsBy_trans)
next
  case (Panic e st)
  with assms show ?thesis by simp
qed

subsection \<open>The journal of \<^verbatim>\<open>handleHTTPRequest\<close>\<close>

lemma coreServing_extends:
  assumes "ok (MiddlewareNext, fst st)" and "ok (ServeFile (StaticFile (fst st)), fst st)"
  shows "extendsBy ok (snd st) (snd (final (coreServing s st)))"
  using assms by (simp add: coreServing_def Let_def extendsBy_append)

lemma handleHTTPRequest_extends:
  assumes nxt: "\<And>p. ok (MiddlewareNext, p)"
    and fil: "\<And>x p. ok (ServeFile x, p)"
    and hook: "\<And>h p. \<not> IsExited p \<Longrightarrow> ok (CallHookHandler h, p)"
    and first: "ok (CallHookHandler HookBeforeServe,
                    checkServiceType (searchDynamic s (searchStatic s r (fst st))))"
  shows "extendsBy ok (snd st) (snd (final (handleHTTPRequest s r st)))"
  unfolding handleHTTPRequest_def Let_def
  apply (rule extendsBy_andThen)
   apply (simp add: extendsBy_append first)
  apply (rule extendsBy_andThen)
   apply (simp add: coreServing_extends nxt fil)
  apply (rule extendsBy_andThen)
   apply (simp add: extendsBy_append hook)
  apply (simp add: extendsBy_append hook)
  done

lemma classify_exited:
  "IsExited (checkServiceType (searchDynamic s (searchStatic s r q))) = IsExited q"
  by (simp add: checkServiceType_def searchDynamic_def searchStatic_def IsExited_def Let_def
      split: prod.splits)

lemma handleHTTPRequest_first:
  "extendsBy (\<lambda>e. True)
     (snd st @ [(CallHookHandler HookBeforeServe,
                 checkServiceType (searchDynamic s (searchStatic s r (fst st))))])
     (snd (final (handleHTTPRequest s r st)))"
  unfolding handleHTTPRequest_def Let_def
  apply (rule extendsBy_andThen)
   apply simp
  apply (rule extendsBy_andThen)
   apply (simp add: coreServing_extends)
  apply (rule extendsBy_andThen)
   apply (simp add: extendsBy_append)
  apply (simp add: extendsBy_append)
  done

subsection \<open>The journal of the status handler loop\<close>

lemma statusHandlerLoop_journal:
  "snd (final (statusHandlerLoop s fs st)) = snd st @ statusCalls s fs (fst st)"
proof (induction fs arbitrary: st)
  case Nil
  then show ?case by simp
next
  case (Cons f fs)
  show ?case
  proof (cases "niceCallFunc s (HandlerFunc s f) (fst st)")
    case (Normal q')
    then show ?thesis using Cons.IH [of "(q', snd st @ [(StatusHandler f, fst st)])"]
      by (simp add: invoke_def)
  next
    case (Panic e q')
    then show ?thesis by (simp add: invoke_def)
  qed
qed

lemma statusCalls_all:
  assumes "\<And>f p. ok (StatusHandler f, p)"
  shows "list_all ok (statusCalls s fs q)"
  using assms by (induction fs arbitrary: q) (auto split: outcome.splits)

lemma statusCalls_order:
  "map fst (statusCalls s fs q) = map StatusHandler (take (length (statusCalls s fs q)) fs)"
  by (induction fs arbitrary: q) (auto split: outcome.splits)

lemma statusCalls_Nil: "statusCalls s fs q = [] \<longleftrightarrow> fs = []"
  by (cases fs) auto

lemma statusCalls_hd: "statusCalls s fs q = e # es \<Longrightarrow> snd e = q"
  by (cases fs) auto

text \<open>
  Two calls in a row: the second is made on the request the wrapper returned from the
  first, and that request is not exited.
\<close>

lemma statusCalls_step:
  "statusCalls s fs q = pre @ (StatusHandler f, p) # e # post \<Longrightarrow>
     niceCallFunc s (HandlerFunc s f) p = Normal (snd e) \<and> \<not> IsExited (snd e)"
proof (induction fs arbitrary: q pre)
  case Nil
  then show ?case by simp
next
  case (Cons g fs)
  show ?case
  proof (cases pre)
    case Nil
    with Cons.prems show ?thesis
      by (auto split: outcome.splits if_splits dest: statusCalls_hd)
  next
    case (Cons x pre')
    with Cons.prems Cons.IH show ?thesis
      by (auto split: outcome.splits if_splits)
  qed
qed

text \<open>
  The last call: the loop ends with what the wrapper returned from it, and when handlers
  are left over, the request is exited.
\<close>

lemma statusHandlerLoop_end:
  "statusCalls s fs q = pre @ [(StatusHandler f, p)] \<Longrightarrow>
     (case niceCallFunc s (HandlerFunc s f) p of
        Normal q' \<Rightarrow> statusHandlerLoop s fs (q, j) = Normal (q', j @ statusCalls s fs q) \<and>
                      (length (statusCalls s fs q) < length fs \<longrightarrow> IsExited q')
      | Panic e q' \<Rightarrow> statusHandlerLoop s fs (q, j) = Panic e (q', j @ statusCalls s fs q))"
proof (induction fs arbitrary: q j pre)
  case Nil
  then show ?case by simp
next
  case (Cons g fs)
  show ?case
  proof (cases pre)
    case Nil
    with Cons.prems show ?thesis
      by (auto simp add: invoke_def statusCalls_Nil split: outcome.splits if_splits)
  next
    case (Cons x pre')
    with Cons.prems obtain q1 where q1: "niceCallFunc s (HandlerFunc s g) q = Normal q1"
      "\<not> IsExited q1" "statusCalls s fs q1 = pre' @ [(StatusHandler f, p)]"
      by (auto split: outcome.splits if_splits)
    from Cons.IH [OF q1(3), of "j @ [(StatusHandler g, q)]"] q1 show ?thesis
      by (auto simp add: invoke_def split: outcome.splits)
  qed
qed

lemma statusHandling_new:
  "drop (length j) (snd (final (statusHandling s (q, j)))) =
     (if Status (Response q) \<noteq> 200
      then statusCalls s (getStatusHandler s (Status (Response q)) q) q else [])"
  by (simp add: statusHandling_def Let_def StatusOK_def statusHandlerLoop_journal)

lemma statusHandling_extends:
  assumes "\<And>f p. ok (StatusHandler f, p)"
  shows "extendsBy ok (snd st) (snd (final (statusHandling s st)))"
  using assms
  by (simp add: statusHandling_def Let_def statusHandlerLoop_journal extendsBy_append
      statusCalls_all)

lemma serveStatus_extends:
  assumes nxt: "\<And>p. ok (MiddlewareNext, p)"
    and fil: "\<And>x p. ok (ServeFile x, p)"
    and hook: "\<And>h p. \<not> IsExited p \<Longrightarrow> ok (CallHookHandler h, p)"
    and first: "ok (CallHookHandler HookBeforeServe,
                    checkServiceType (searchDynamic s (searchStatic s r (fst st))))"
    and status: "\<And>f p. ok (StatusHandler f, p)"
  shows "extendsBy ok (snd st) (snd (final (serveStatus s r st)))"
  unfolding serveStatus_def
proof (rule extendsBy_andThen)
  show "extendsBy ok (snd st) (snd (final (handleHTTPRequest s r st)))"
    by (rule handleHTTPRequest_extends) (fact nxt fil hook first)+
next
  fix st1
  show "extendsBy ok (snd st1) (snd (final (statusHandling s (update statusChecking st1))))"
    using statusHandling_extends [of ok "update statusChecking st1" s] status by simp
qed

lemma quiet_filters:
  assumes "list_all quiet j"
  shows "filter isErrorLog (map fst j) = []"
    and "filter isCookieSetSessionId (map fst j) = []"
  using assms by (induction j) auto

lemma serveStatus_quiet: "list_all quiet (snd (final (serveStatus s r (q, []))))"
proof -
  have "extendsBy quiet (snd (q, [])) (snd (final (serveStatus s r (q, []))))"
    by (rule serveStatus_extends) simp_all
  then show ?thesis by (auto dest: extendsBy_Nil)
qed

subsection \<open>The journal of the output part and of the deferred function\<close>

lemma sessionCookie_journal:
  "snd (sessionCookie s st) =
     snd st @ (if SessionCookieOutput (config s) \<and> IsDirty (Session (fst st)) \<and>
                  MustId (Session (fst st)) \<noteq> GetSessionId (fst st)
               then [(CookieSetSessionId (MustId (Session (fst st))), fst st)] else [])"
  by (simp add: sessionCookie_def Let_def)

lemma writeOutput_journal:
  "\<exists>new. snd (final (writeOutput s st)) =
      snd (sessionCookie s st) @ (CookieFlush, fst (sessionCookie s st)) #
        (ResponseFlush, fst (sessionCookie s st)) # new \<and>
      (new = [] \<or> new = [(CallHookHandler HookAfterOutput, fst (sessionCookie s st))] \<and>
         \<not> IsExited (fst (sessionCookie s st)))"
  by (simp add: writeOutput_def Let_def)

lemma writeOutput_extends:
  assumes hook: "\<And>h p. \<not> IsExited p \<Longrightarrow> ok (CallHookHandler h, p)"
    and flush: "\<And>p. ok (CookieFlush, p)" "\<And>p. ok (ResponseFlush, p)"
    and cookie: "\<And>i p. ok (CookieSetSessionId i, p)"
  shows "extendsBy ok (snd st) (snd (final (writeOutput s st)))"
proof -
  from writeOutput_journal [of s st] obtain new where
    new: "snd (final (writeOutput s st)) =
      snd (sessionCookie s st) @ (CookieFlush, fst (sessionCookie s st)) #
        (ResponseFlush, fst (sessionCookie s st)) # new"
     "new = [] \<or> new = [(CallHookHandler HookAfterOutput, fst (sessionCookie s st))] \<and>
         \<not> IsExited (fst (sessionCookie s st))"
    by blast
  from new(2) hook have "list_all ok new" by auto
  with new(1) flush cookie show ?thesis
    by (simp add: sessionCookie_journal extendsBy_def)
qed

lemma writeOutput_cookie_calls:
  "filter isCookieSetSessionId (map fst (snd (final (writeOutput s st)))) =
     filter isCookieSetSessionId (map fst (snd st)) @
     (if SessionCookieOutput (config s) \<and> IsDirty (Session (fst st)) \<and>
         MustId (Session (fst st)) \<noteq> GetSessionId (fst st)
      then [CookieSetSessionId (MustId (Session (fst st)))] else [])"
  using writeOutput_journal [of s st] by (auto simp add: sessionCookie_journal)

lemma writeOutput_error_calls:
  "filter isErrorLog (map fst (snd (final (writeOutput s st)))) =
     filter isErrorLog (map fst (snd st))"
  using writeOutput_journal [of s st] by (auto simp add: sessionCookie_journal)

lemma closing_journal:
  "snd (closing st) =
     snd st @ [(HandleAccessLog, fst st), (SessionClose, fst st), (RequestBodyClose, fst st)] @
     (if HasResponse (Request (fst st)) then [(ResponseBodyClose, fst st)] else [])"
  by (simp add: closing_def Let_def)

lemma fst_closing [simp]: "fst (closing st) = fst st"
  by (simp add: closing_def Let_def)

lemma deferred_journal:
  "snd (final (deferred s out)) =
     snd (closing (final (errorLogHandling out
       (update (\<lambda>q. q\<lparr>LeaveTime := TimestampMilli s\<rparr>) (final out)))))"
  by (simp add: deferred_def Let_def split: outcome.splits)

lemma errorLogHandling_journal:
  "\<exists>new. snd (final (errorLogHandling out st)) = snd st @ new \<and>
     (new = [] \<or> (\<exists>e p. new = [(HandleErrorLog e, p)]))"
  by (auto simp add: errorLogHandling_def Let_def split: option.splits outcome.splits)

lemma deferred_extends:
  assumes "\<And>e p. ok (HandleErrorLog e, p)" "\<And>p. ok (HandleAccessLog, p)"
    "\<And>p. ok (SessionClose, p)" "\<And>p. ok (RequestBodyClose, p)"
    "\<And>p. ok (ResponseBodyClose, p)"
  shows "extendsBy ok (snd (final out)) (snd (final (deferred s out)))"
proof -
  from errorLogHandling_journal
    [of out "update (\<lambda>q. q\<lparr>LeaveTime := TimestampMilli s\<rparr>) (final out)"]
  obtain new where
    new: "snd (final (errorLogHandling out
             (update (\<lambda>q. q\<lparr>LeaveTime := TimestampMilli s\<rparr>) (final out)))) =
          snd (final out) @ new"
      "new = [] \<or> (\<exists>e p. new = [(HandleErrorLog e, p)])"
    by auto
  from new(2) assms(1) have "list_all ok new" by auto
  with new(1) assms show ?thesis
    by (simp add: deferred_journal closing_journal extendsBy_def)
qed

lemma deferred_cookie_calls:
  "filter isCookieSetSessionId (map fst (snd (final (deferred s out)))) =
     filter isCookieSetSessionId (map fst (snd (final out)))"
proof -
  have "extendsBy noCookieSet (snd (final out)) (snd (final (deferred s out)))"
    by (rule deferred_extends) simp_all
  then obtain new where
    "snd (final (deferred s out)) = snd (final out) @ new" "list_all noCookieSet new"
    by (auto simp add: extendsBy_def)
  moreover from this(2) have "filter isCookieSetSessionId (map fst new) = []"
    by (induction new) auto
  ultimately show ?thesis by simp
qed

lemma serveRequest_no_error_log:
  "filter isErrorLog (map fst (snd (final (serveRequest s r (q, []))))) = []"
proof (cases "serveStatus s r (q, [])")
  case (Normal st)
  with serveStatus_quiet [of s r q] show ?thesis
    by (simp add: serveRequest_def writeOutput_error_calls quiet_filters)
next
  case (Panic e st)
  with serveStatus_quiet [of s r q] show ?thesis
    by (simp add: serveRequest_def quiet_filters)
qed

lemma deferred_recover:
  assumes "error (fst st) = None"
  shows "deferred s (Panic exc st) =
     Normal (closing (record_call (HandleErrorLog (recoveredError exc))
       (update (\<lambda>q. q\<lparr>LeaveTime := TimestampMilli s,
                        Response := WriteStatus StatusInternalServerError (Response q)\<rparr>) st)))"
  using assms by (simp add: deferred_def errorLogHandling_def Let_def update_def)

subsection \<open>The flush of the response\<close>

lemma flushedStatus_append [simp]: "flushedStatus (j @ k) = flushedStatus j @ flushedStatus k"
  by (simp add: flushedStatus_def)

lemma flushedStatus_none: "list_all noResponseFlush j \<Longrightarrow> flushedStatus j = []"
  by (induction j) (auto simp add: flushedStatus_def)

lemma handleHTTPRequest_noFlush:
  "flushedStatus (snd (final (handleHTTPRequest s r (q, [])))) = []"
proof -
  have "extendsBy noResponseFlush (snd (q, [])) (snd (final (handleHTTPRequest s r (q, []))))"
    by (rule handleHTTPRequest_extends) simp_all
  then show ?thesis by (auto dest: extendsBy_Nil flushedStatus_none)
qed

lemma deferred_flushedStatus:
  "flushedStatus (snd (final (deferred s out))) = flushedStatus (snd (final out))"
proof -
  have "extendsBy noResponseFlush (snd (final out)) (snd (final (deferred s out)))"
    by (rule deferred_extends) simp_all
  then show ?thesis by (auto simp add: extendsBy_def flushedStatus_none)
qed

lemma sessionCookie_Response: "Response (fst (sessionCookie s st)) = Response (fst st)"
  by (simp add: sessionCookie_def Let_def)

lemma writeOutput_flushedStatus:
  "flushedStatus (snd (final (writeOutput s st))) =
     flushedStatus (snd st) @ [Status (Response (fst st))]"
  using writeOutput_journal [of s st]
  by (auto simp add: sessionCookie_journal sessionCookie_Response flushedStatus_def)

subsection \<open>Hooks in the journal\<close>

lemma CServeHTTP_hookGated: "list_all hookGated (snd (final (CServeHTTP s w r)))"
proof -
  let ?st0 = "(newRequest s (prepare s r) w, [])"
  have "extendsBy hookGated (snd ?st0) (snd (final (serveStatus s (prepare s r) ?st0)))"
    by (rule serveStatus_extends)
      (simp_all add: classify_exited, simp add: IsExited_def newRequest_def)
  moreover have "\<And>st. extendsBy hookGated (snd st) (snd (final (writeOutput s st)))"
    by (rule writeOutput_extends) simp_all
  ultimately have "extendsBy hookGated [] (snd (final (serveRequest s (prepare s r) ?st0)))"
    unfolding serveRequest_def by (intro extendsBy_andThen) simp_all
  moreover have "extendsBy hookGated (snd (final (serveRequest s (prepare s r) ?st0)))
      (snd (final (deferred s (serveRequest s (prepare s r) ?st0))))"
    by (rule deferred_extends) simp_all
  ultimately show ?thesis
    by (auto simp add: CServeHTTP_def Let_def dest: extendsBy_trans extendsBy_Nil)
qed

lemma handleHTTPRequest_hookGatedAfterFirst:
  "list_all hookGatedAfterFirst (snd (final (handleHTTPRequest s r (q, []))))"
proof -
  have "extendsBy hookGatedAfterFirst (snd (q, [])) (snd (final (handleHTTPRequest s r (q, []))))"
    by (rule handleHTTPRequest_extends) simp_all
  then show ?thesis by (auto dest: extendsBy_Nil)
qed

section \<open>Hook stages\<close>

text \<open>
  C1, as the spec states it, does not hold for the hook \<^verbatim>\<open>HookBeforeServe\<close>:
  \<^verbatim>\<open>handleHTTPRequest\<close> calls it without looking at the exited flag. On the concrete
  server, \<^verbatim>\<open>HandleContext\<close> on a request that a handler has exited calls the hook
  \<^verbatim>\<open>HookBeforeServe\<close>, and nothing after it.
\<close>

theorem BeforeServe_runs_on_exited_request:
  "IsExited (midChain ''/api/x'' True) = True \<and>
   map (\<lambda>e. (fst e, IsExited (snd e)))
     (snd (final (HandleContext exampleServer (midChain ''/api/x'' True, [])))) =
     [(CallHookHandler HookBeforeServe, True)]"
  by (simp add: model_defs example_defs Let_def)

text \<open>
  C1, amended. In a request that \<^verbatim>\<open>CServeHTTP\<close> dispatches, each of the four hook
  stages is only invoked on a request that is not exited. In \<^verbatim>\<open>handleHTTPRequest\<close>,
  which \<^verbatim>\<open>HandleContext\<close> enters as well, the stages \<^verbatim>\<open>HookAfterServe\<close> and
  \<^verbatim>\<open>HookBeforeOutput\<close> are only invoked on a request that is not exited, while
  \<^verbatim>\<open>HookBeforeServe\<close> is invoked first and in any case, exited or not. Every entry of
  the journal holds the request as it was at the call, so a stage that is reached with
  the exited flag set is not in the journal: it was skipped.
\<close>

theorem hook_stages_gated:
  "((CallHookHandler h, p) \<in> set (snd (final (CServeHTTP s w r))) \<longrightarrow> \<not> IsExited p) \<and>
   ((CallHookHandler h, p) \<in> set (snd (final (handleHTTPRequest s r' (q, [])))) \<and>
      h \<noteq> HookBeforeServe \<longrightarrow> \<not> IsExited p) \<and>
   (\<exists>p0 new. snd (final (handleHTTPRequest s r' (q, []))) =
                (CallHookHandler HookBeforeServe, p0) # new \<and>
              IsExited p0 = IsExited q)"
proof (intro conjI impI)
  assume "(CallHookHandler h, p) \<in> set (snd (final (CServeHTTP s w r)))"
  with CServeHTTP_hookGated [of s w r] show "\<not> IsExited p"
    by (auto simp add: list_all_iff)
next
  assume "(CallHookHandler h, p) \<in> set (snd (final (handleHTTPRequest s r' (q, [])))) \<and>
          h \<noteq> HookBeforeServe"
  with handleHTTPRequest_hookGatedAfterFirst [of s r' q] show "\<not> IsExited p"
    by (auto simp add: list_all_iff)
next
  from handleHTTPRequest_first [where s = s and r = r' and st = "(q, [])"] show
    "\<exists>p0 new. snd (final (handleHTTPRequest s r' (q, []))) =
                (CallHookHandler HookBeforeServe, p0) # new \<and>
              IsExited p0 = IsExited q"
    by (auto simp add: classify_exited extendsBy_def)
qed

text \<open>
  The request for \<^verbatim>\<open>/api/stop\<close> on the concrete server: the hook
  \<^verbatim>\<open>HookAfterServe\<close> is invoked on a request that is not exited and exits it; the
  stages \<^verbatim>\<open>HookBeforeOutput\<close> and \<^verbatim>\<open>HookAfterOutput\<close> are not in the journal.
\<close>

theorem hook_stages_gated_witness:
  "map fst (served_journal ''/api/stop'') =
     [CallHookHandler HookBeforeServe, MiddlewareNext, CallHookHandler HookAfterServe,
      CookieFlush, ResponseFlush, HandleAccessLog, SessionClose, RequestBodyClose] \<and>
   IsExited (snd (served_journal ''/api/stop'' ! 2)) = False \<and>
   map fst (handled_journal ''/api/stop'') =
     [CallHookHandler HookBeforeServe, MiddlewareNext, CallHookHandler HookAfterServe] \<and>
   IsExited (snd (handled_journal ''/api/stop'' ! 2)) = False \<and>
   IsExited (handled ''/api/stop'') = True"
proof -
  have j1: "map fst (served_journal ''/api/stop'') =
     [CallHookHandler HookBeforeServe, MiddlewareNext, CallHookHandler HookAfterServe,
      CookieFlush, ResponseFlush, HandleAccessLog, SessionClose, RequestBodyClose]"
    by (simp add: model_defs example_defs Let_def)
  have j2: "map fst (handled_journal ''/api/stop'') =
     [CallHookHandler HookBeforeServe, MiddlewareNext, CallHookHandler HookAfterServe]"
    by (simp add: model_defs example_defs Let_def)
  have m1: "(CallHookHandler HookAfterServe, snd (served_journal ''/api/stop'' ! 2)) \<in>
      set (snd (final (CServeHTTP exampleServer [] (exampleRequest ''/api/stop''))))"
    by (simp add: model_defs example_defs Let_def)
  have m2: "(CallHookHandler HookAfterServe, snd (handled_journal ''/api/stop'' ! 2)) \<in>
      set (snd (final (handleHTTPRequest exampleServer (exampleRequest ''/api/stop'')
             (newRequest exampleServer (exampleRequest ''/api/stop'') [], [])))) \<and>
      HookAfterServe \<noteq> HookBeforeServe"
    by (simp add: model_defs example_defs Let_def)
  have x: "IsExited (handled ''/api/stop'') = True"
    by (simp add: model_defs example_defs Let_def)
  from hook_stages_gated [of HookAfterServe "snd (served_journal ''/api/stop'' ! 2)"
      exampleServer "[]" "exampleRequest ''/api/stop''"] m1
  have g1: "IsExited (snd (served_journal ''/api/stop'' ! 2)) = False"
    by blast
  from hook_stages_gated [of HookAfterServe "snd (handled_journal ''/api/stop'' ! 2)"
      exampleServer _ _ "exampleRequest ''/api/stop''"
      "newRequest exampleServer (exampleRequest ''/api/stop'') []"] m2
  have g2: "IsExited (snd (handled_journal ''/api/stop'' ! 2)) = False"
    by blast
  from j1 g1 j2 g2 x show ?thesis
    by blast
qed

section \<open>Static file or dynamic service\<close>

text \<open>
  C4. With file serving enabled and a static file match \<open>f\<close>, the request is a file
  request (\<^verbatim>\<open>isFileRequest\<close> is true) unless \<open>f\<close> is a directory and the router
  reports a serve handler for the route; in that case it is not, and the handler chain
  is served. The serve handler the router reports is one of the handlers of the route, so
  the handler list is not empty then. The theorem follows the request through the hook
  \<^verbatim>\<open>HookBeforeServe\<close>, for a hook that returns, leaves the request not exited and
  leaves the match, the flag and the handler list as they are: the second call of
  \<^verbatim>\<open>handleHTTPRequest\<close> is then the file server on \<open>f\<close>, or the middleware chain.
\<close>

theorem static_file_priority:
  assumes enabled: "FileServerEnabled (config s)"
    and match: "searchStaticFile s (URLPath r) = Some f"
    and router: "getHandlersWithCache s (searchStatic s r q) = (hs, sh, hasHook, hasServe)"
    and nonempty: "hasServe \<Longrightarrow> hs \<noteq> []"
    and c: "c = checkServiceType (searchDynamic s (searchStatic s r q))"
    and hook: "callHookHandler s HookBeforeServe c = Normal c'"
    and passes: "\<not> IsExited c'"
    and frame: "isFileRequest c' = isFileRequest c" "StaticFile c' = StaticFile c"
      "handlers c' = handlers c"
  shows "StaticFile c = Some f \<and>
         isFileRequest c = (\<not> (IsDir f \<and> hasServe)) \<and>
         take 2 (drop (length j) (snd (final (handleHTTPRequest s r (q, j))))) =
           [(CallHookHandler HookBeforeServe, c),
            (if IsDir f \<and> hasServe then MiddlewareNext else ServeFile (Some f), c')]"
proof -
  have sf: "StaticFile c = Some f"
    using enabled match router c
    by (simp add: checkServiceType_def searchDynamic_def searchStatic_def Let_def)
  have hsl: "handlers c = hs"
    using enabled match router c
    by (simp add: checkServiceType_def searchDynamic_def searchStatic_def Let_def)
  have cls: "isFileRequest c = (\<not> (IsDir f \<and> hasServe))"
    using enabled match router c
    by (simp add: checkServiceType_def searchDynamic_def searchStatic_def Let_def)
  have core: "\<exists>new. snd (final (coreServing s (c', j @ [(CallHookHandler HookBeforeServe, c)]))) =
      j @ [(CallHookHandler HookBeforeServe, c),
           (if IsDir f \<and> hasServe then MiddlewareNext else ServeFile (Some f), c')] @ new"
    using cls sf hsl frame nonempty
    by (auto simp add: coreServing_def Let_def)
  have "handleHTTPRequest s r (q, j) =
      andThen (coreServing s (c', j @ [(CallHookHandler HookBeforeServe, c)])) (\<lambda>st5.
        andThen (if \<not> IsExited (fst st5)
                 then invoke (CallHookHandler HookAfterServe) (callHookHandler s HookAfterServe) st5
                 else Normal st5) (\<lambda>st6.
        if \<not> IsExited (fst st6)
        then invoke (CallHookHandler HookBeforeOutput) (callHookHandler s HookBeforeOutput) st6
        else Normal st6))"
    using hook passes c by (simp add: handleHTTPRequest_def Let_def invoke_def)
  moreover have "extendsBy (\<lambda>e. True)
      (snd (final (coreServing s (c', j @ [(CallHookHandler HookBeforeServe, c)]))))
      (snd (final (andThen (coreServing s (c', j @ [(CallHookHandler HookBeforeServe, c)])) (\<lambda>st5.
        andThen (if \<not> IsExited (fst st5)
                 then invoke (CallHookHandler HookAfterServe) (callHookHandler s HookAfterServe) st5
                 else Normal st5) (\<lambda>st6.
        if \<not> IsExited (fst st6)
        then invoke (CallHookHandler HookBeforeOutput) (callHookHandler s HookBeforeOutput) st6
        else Normal st6)))))"
    apply (rule extendsBy_andThen)
     apply simp
    apply (rule extendsBy_andThen)
     apply (simp add: extendsBy_append)
    apply (simp add: extendsBy_append)
    done
  ultimately obtain more where
    "snd (final (handleHTTPRequest s r (q, j))) =
       snd (final (coreServing s (c', j @ [(CallHookHandler HookBeforeServe, c)]))) @ more"
    by (auto simp add: extendsBy_def)
  with core have "take 2 (drop (length j) (snd (final (handleHTTPRequest s r (q, j))))) =
           [(CallHookHandler HookBeforeServe, c),
            (if IsDir f \<and> hasServe then MiddlewareNext else ServeFile (Some f), c')]"
    by auto
  with sf cls show ?thesis by simp
qed

text \<open>
  On the concrete server \<^verbatim>\<open>/static\<close> is a directory with a serve handler on the same
  route, and \<^verbatim>\<open>/static/exists.html\<close> is a file with no handler: the first goes to
  the middleware chain, the second to the file server.
\<close>

theorem static_file_priority_witness:
  "map fst (take 2 (handled_journal ''/static'')) =
     [CallHookHandler HookBeforeServe, MiddlewareNext] \<and>
   isFileRequest (handled ''/static'') = False \<and>
   map fst (take 2 (handled_journal ''/static/exists.html'')) =
     [CallHookHandler HookBeforeServe,
      ServeFile (Some \<lparr>Path = ''/srv/static/exists.html'', IsDir = False\<rparr>)] \<and>
   isFileRequest (handled ''/static/exists.html'') = True"
proof -
  let ?s = "exampleServer"
  let ?d = "exampleRequest ''/static''"
  let ?f = "exampleRequest ''/static/exists.html''"
  let ?cd = "checkServiceType (searchDynamic ?s (searchStatic ?s ?d (newRequest ?s ?d [])))"
  let ?cf = "checkServiceType (searchDynamic ?s (searchStatic ?s ?f (newRequest ?s ?f [])))"
  have enabled: "FileServerEnabled (config ?s)"
    by (simp add: example_defs)
  have d: "searchStaticFile ?s (URLPath ?d) = Some \<lparr>Path = ''/srv/static'', IsDir = True\<rparr>"
    "getHandlersWithCache ?s (searchStatic ?s ?d (newRequest ?s ?d [])) = ([1], Some 1, True, True)"
    "True \<Longrightarrow> [1::nat] \<noteq> []"
    "callHookHandler ?s HookBeforeServe ?cd = Normal ?cd"
    "\<not> IsExited ?cd"
    by (simp_all add: model_defs example_defs Let_def)
  have f: "searchStaticFile ?s (URLPath ?f) = Some \<lparr>Path = ''/srv/static/exists.html'', IsDir = False\<rparr>"
    "getHandlersWithCache ?s (searchStatic ?s ?f (newRequest ?s ?f [])) = ([], None, False, False)"
    "False \<Longrightarrow> ([]::nat list) \<noteq> []"
    "callHookHandler ?s HookBeforeServe ?cf = Normal ?cf"
    "\<not> IsExited ?cf"
    by (simp_all add: model_defs example_defs Let_def)
  from static_file_priority [OF enabled d(1) d(2) d(3) refl d(4) d(5) refl refl refl, of "[]"]
  have rd: "isFileRequest ?cd = False"
    "take 2 (handled_journal ''/static'') = [(CallHookHandler HookBeforeServe, ?cd), (MiddlewareNext, ?cd)]"
    by (simp_all add: handled_journal_def)
  from static_file_priority [OF enabled f(1) f(2) f(3) refl f(4) f(5) refl refl refl, of "[]"]
  have rf: "isFileRequest ?cf = True"
    "take 2 (handled_journal ''/static/exists.html'') =
       [(CallHookHandler HookBeforeServe, ?cf),
        (ServeFile (Some \<lparr>Path = ''/srv/static/exists.html'', IsDir = False\<rparr>), ?cf)]"
    by (simp_all add: handled_journal_def)
  have h: "isFileRequest (handled ''/static'') = False"
    "isFileRequest (handled ''/static/exists.html'') = True"
    by (simp_all add: model_defs example_defs Let_def)
  from rd(2) rf(2) h show ?thesis
    by simp
qed

section \<open>The default status\<close>

text \<open>
  C8. When no status has been set and a handler has written into the response buffer or
  the served flag of the middleware chain is set, the status becomes 200. Nothing else of
  the request changes, and no status fallback handler runs. When that request is what
  \<^verbatim>\<open>handleHTTPRequest\<close> has left in \<^verbatim>\<open>CServeHTTP\<close>, the response is flushed once,
  with status 200.
\<close>

theorem default_status_200:
  assumes "Status (Response request) = 0"
    and "served (Middleware request) \<or> buffer (Response request) \<noteq> []"
  shows "Status (Response (statusChecking request)) = 200 \<and>
         statusChecking request = request\<lparr>Response := (Response request)\<lparr>Status := 200\<rparr>\<rparr> \<and>
         statusHandling s (statusChecking request, j) = Normal (statusChecking request, j) \<and>
         (handleHTTPRequest s (prepare s r) (newRequest s (prepare s r) w, []) = Normal (request, j) \<longrightarrow>
            flushedStatus (snd (final (CServeHTTP s w r))) = [200])"
proof -
  have a: "Status (Response (statusChecking request)) = 200"
    and b: "statusChecking request = request\<lparr>Response := (Response request)\<lparr>Status := 200\<rparr>\<rparr>"
    and c: "statusHandling s (statusChecking request, j) = Normal (statusChecking request, j)"
    using assms
    by (auto simp add: statusChecking_def statusHandling_def WriteHeader_def StatusOK_def Let_def)
  have d: "flushedStatus (snd (final (CServeHTTP s w r))) = [200]"
    if h: "handleHTTPRequest s (prepare s r) (newRequest s (prepare s r) w, []) = Normal (request, j)"
  proof -
    from h handleHTTPRequest_noFlush [of s "prepare s r" "newRequest s (prepare s r) w"]
    have j: "flushedStatus j = []" by simp
    from h c have "serveStatus s (prepare s r) (newRequest s (prepare s r) w, []) =
        Normal (statusChecking request, j)"
      by (simp add: serveStatus_def update_def)
    then have "serveRequest s (prepare s r) (newRequest s (prepare s r) w, []) =
        writeOutput s (statusChecking request, j)"
      by (simp add: serveRequest_def)
    with j a show ?thesis
      by (simp add: CServeHTTP_def Let_def deferred_flushedStatus writeOutput_flushedStatus)
  qed
  from a b c d show ?thesis by blast
qed

text \<open>
  The request for \<^verbatim>\<open>/api/x\<close> on the concrete server: its handler writes
  \<^verbatim>\<open>hello\<close> and sets the served flag, no status is set, and the status becomes 200.
\<close>

theorem default_status_200_witness:
  "Status (Response (handled ''/api/x'')) = 0 \<and>
   served (Middleware (handled ''/api/x'')) = True \<and>
   buffer (Response (handled ''/api/x'')) = ''hello'' \<and>
   Status (Response (statusChecking (handled ''/api/x''))) = 200 \<and>
   statusHandling exampleServer (statusChecking (handled ''/api/x''), []) =
     Normal (statusChecking (handled ''/api/x''), []) \<and>
   flushedStatus (served_journal ''/api/x'') = [200]"
proof -
  let ?r = "exampleRequest ''/api/x''"
  have h: "Status (Response (handled ''/api/x'')) = 0"
    "served (Middleware (handled ''/api/x'')) = True"
    "buffer (Response (handled ''/api/x'')) = ''hello''"
    by (simp_all add: model_defs example_defs Let_def)
  from h(2) have d: "served (Middleware (handled ''/api/x'')) \<or> buffer (Response (handled ''/api/x'')) \<noteq> []"
    by simp
  have p: "prepare exampleServer ?r = ?r"
    by (simp add: prepare_def example_defs Let_def)
  have "returns (handleHTTPRequest exampleServer ?r (newRequest exampleServer ?r [], []))"
    by (simp add: model_defs example_defs Let_def)
  from returns_Normal [OF this]
  have n: "handleHTTPRequest exampleServer (prepare exampleServer ?r)
             (newRequest exampleServer (prepare exampleServer ?r) [], []) =
           Normal (handled ''/api/x'', handled_journal ''/api/x'')"
    by (simp add: p handled_def handled_journal_def)
  from default_status_200 [OF h(1) d, of exampleServer "[]"]
  have c: "Status (Response (statusChecking (handled ''/api/x''))) = 200 \<and>
           statusHandling exampleServer (statusChecking (handled ''/api/x''), []) =
             Normal (statusChecking (handled ''/api/x''), [])"
    by blast
  from default_status_200 [OF h(1) d, of exampleServer "handled_journal ''/api/x''" ?r "[]"] n
  have f: "flushedStatus (served_journal ''/api/x'') = [200]"
    by (simp add: served_journal_def)
  from h c f show ?thesis
    by blast
qed

text \<open>
  C2, as the spec states it, does not hold: with a static file match the status becomes
  200 although the buffer is empty, the served flag is false, no error is recorded and no
  status was set. On the concrete server the request for \<^verbatim>\<open>/static/exists.html\<close> is
  such a request: the file server sends the file to the connection, not to the buffer,
  and the response is flushed with status 200.
\<close>

theorem static_match_defaults_to_200:
  "buffer (Response (handled ''/static/exists.html'')) = [] \<and>
   served (Middleware (handled ''/static/exists.html'')) = False \<and>
   GetError (handled ''/static/exists.html'') = None \<and>
   Status (Response (handled ''/static/exists.html'')) = 0 \<and>
   Status (Response (statusChecking (handled ''/static/exists.html''))) = 200 \<and>
   Status (Response (fst (final (CServeHTTP exampleServer [] (exampleRequest ''/static/exists.html''))))) = 200 \<and>
   flushedStatus (served_journal ''/static/exists.html'') = [200]"
  by (simp add: model_defs example_defs Let_def)

text \<open>
  C2, amended. When no status has been set, there is no static file match, the served
  flag is false, the buffer is empty and no error is recorded, the status becomes 404, and
  nothing else of the request changes.
\<close>

theorem default_status_404:
  assumes "Status (Response request) = 0"
    and "StaticFile request = None"
    and "\<not> served (Middleware request)"
    and "buffer (Response request) = []"
    and "GetError request = None"
  shows "Status (Response (statusChecking request)) = 404 \<and>
         statusChecking request = request\<lparr>Response := (Response request)\<lparr>Status := 404\<rparr>\<rparr>"
  using assms by (auto simp add: statusChecking_def WriteHeader_def StatusNotFound_def)

text \<open>
  The request for \<^verbatim>\<open>/api/silent\<close> on the concrete server: its handler chain
  writes nothing and sets nothing.
\<close>

theorem default_status_404_witness:
  "Status (Response (handled ''/api/silent'')) = 0 \<and>
   StaticFile (handled ''/api/silent'') = None \<and>
   served (Middleware (handled ''/api/silent'')) = False \<and>
   buffer (Response (handled ''/api/silent'')) = [] \<and>
   GetError (handled ''/api/silent'') = None \<and>
   Status (Response (statusChecking (handled ''/api/silent''))) = 404"
proof -
  have h: "Status (Response (handled ''/api/silent'')) = 0"
    "StaticFile (handled ''/api/silent'') = None"
    "\<not> served (Middleware (handled ''/api/silent''))"
    "buffer (Response (handled ''/api/silent'')) = []"
    "GetError (handled ''/api/silent'') = None"
    by (simp_all add: model_defs example_defs Let_def)
  from default_status_404 [OF h] h show ?thesis
    by simp
qed

text \<open>
  C9. When no status has been set, the buffer is empty, the served flag is false, there
  is no static file match and an error is recorded on the request, the text of the error
  becomes the response body and the status becomes 500.
\<close>

theorem default_status_500:
  assumes "Status (Response request) = 0"
    and "buffer (Response request) = []"
    and "\<not> served (Middleware request)"
    and "StaticFile request = None"
    and "GetError request = Some err"
  shows "buffer (Response (statusChecking request)) = Error err \<and>
         Status (Response (statusChecking request)) = 500 \<and>
         statusChecking request =
           request\<lparr>Response := (Response request)\<lparr>Status := 500, buffer := Error err\<rparr>\<rparr>"
  using assms
  by (auto simp add: statusChecking_def WriteHeader_def Write_def BufferLength_def
      StatusInternalServerError_def)

text \<open>
  The request for \<^verbatim>\<open>/api/fail\<close> on the concrete server: its handler records the
  error \<^verbatim>\<open>failed\<close> and writes nothing.
\<close>

theorem default_status_500_witness:
  "Status (Response (handled ''/api/fail'')) = 0 \<and>
   buffer (Response (handled ''/api/fail'')) = [] \<and>
   served (Middleware (handled ''/api/fail'')) = False \<and>
   StaticFile (handled ''/api/fail'') = None \<and>
   GetError (handled ''/api/fail'') = Some (GoError (CodeOther 52) ''failed'') \<and>
   buffer (Response (statusChecking (handled ''/api/fail''))) = ''failed'' \<and>
   Status (Response (statusChecking (handled ''/api/fail''))) = 500"
proof -
  have h: "Status (Response (handled ''/api/fail'')) = 0"
    "buffer (Response (handled ''/api/fail'')) = []"
    "\<not> served (Middleware (handled ''/api/fail''))"
    "StaticFile (handled ''/api/fail'') = None"
    "GetError (handled ''/api/fail'') = Some (GoError (CodeOther 52) ''failed'')"
    by (simp_all add: model_defs example_defs Let_def)
  from default_status_500 [OF h] h show ?thesis
    by simp
qed

section \<open>Status fallback handlers\<close>

text \<open>
  C7. The status handler block of \<^verbatim>\<open>CServeHTTP\<close>, entered with request \<open>q\<close> and
  journal \<open>j\<close>; \<open>fs\<close> are the handlers registered for the status of \<open>q\<close>, in
  registration order, and \<open>new\<close> is what the block adds to the journal. Handlers are
  invoked if and only if the status differs from 200 (and there are handlers for it).
  The handlers invoked are the first ones of \<open>fs\<close>, in the order of \<open>fs\<close>, the first one
  on \<open>q\<close>. Each runs inside \<^verbatim>\<open>niceCallFunc\<close>: the next handler is invoked on the
  request that the wrapper returned, and only when that request is not exited. The loop
  ends with what the wrapper gave for the last handler invoked, and when handlers of
  \<open>fs\<close> were left out, that request is exited (or the wrapper let a panic through).
\<close>

theorem status_handlers_run:
  assumes out: "out = statusHandling s (q, j)"
    and fs: "fs = getStatusHandler s (Status (Response q)) q"
    and new: "new = drop (length j) (snd (final out))"
  shows "snd (final out) = j @ new \<and>
         (new \<noteq> [] \<longleftrightarrow> Status (Response q) \<noteq> 200 \<and> fs \<noteq> []) \<and>
         map fst new = map StatusHandler (take (length new) fs) \<and>
         (new \<noteq> [] \<longrightarrow> snd (hd new) = q) \<and>
         (\<forall>pre f p e post. new = pre @ (StatusHandler f, p) # e # post \<longrightarrow>
            niceCallFunc s (HandlerFunc s f) p = Normal (snd e) \<and> \<not> IsExited (snd e)) \<and>
         (\<forall>pre f p. new = pre @ [(StatusHandler f, p)] \<longrightarrow>
            (case niceCallFunc s (HandlerFunc s f) p of
               Normal q' \<Rightarrow> out = Normal (q', j @ new) \<and> (length new < length fs \<longrightarrow> IsExited q')
             | Panic e q' \<Rightarrow> out = Panic e (q', j @ new)))"
proof (cases "Status (Response q) = 200")
  case True
  with out new have "new = []" "out = Normal (q, j)"
    by (simp_all add: statusHandling_def Let_def StatusOK_def)
  with True show ?thesis by simp
next
  case False
  with out new fs have n: "new = statusCalls s fs q"
    by (simp add: statusHandling_new)
  from False out fs have o: "out = statusHandlerLoop s fs (q, j)"
    by (simp add: statusHandling_def Let_def StatusOK_def)
  have 1: "snd (final out) = j @ new"
    by (simp add: o n statusHandlerLoop_journal)
  have 2: "new \<noteq> [] \<longleftrightarrow> Status (Response q) \<noteq> 200 \<and> fs \<noteq> []"
    using False by (simp add: n statusCalls_Nil)
  have 3: "map fst new = map StatusHandler (take (length new) fs)"
    unfolding n by (rule statusCalls_order)
  have 4: "new \<noteq> [] \<longrightarrow> snd (hd new) = q"
    unfolding n by (cases "statusCalls s fs q") (auto dest: statusCalls_hd)
  have 5: "\<forall>pre f p e post. new = pre @ (StatusHandler f, p) # e # post \<longrightarrow>
            niceCallFunc s (HandlerFunc s f) p = Normal (snd e) \<and> \<not> IsExited (snd e)"
    unfolding n by (blast dest: statusCalls_step)
  have 6: "\<forall>pre f p. new = pre @ [(StatusHandler f, p)] \<longrightarrow>
            (case niceCallFunc s (HandlerFunc s f) p of
               Normal q' \<Rightarrow> out = Normal (q', j @ new) \<and> (length new < length fs \<longrightarrow> IsExited q')
             | Panic e q' \<Rightarrow> out = Panic e (q', j @ new))"
    unfolding n o using statusHandlerLoop_end [of s fs q _ _ _ j] by blast
  from 1 2 3 4 5 6 show ?thesis by blast
qed

text \<open>
  On the concrete server the request for \<^verbatim>\<open>/api/silent\<close> ends with status 404, for
  which three handlers are registered. The second exits the request: the first and the
  second are invoked, in that order, the third is not.
\<close>

theorem status_handlers_run_witness:
  "Status (Response (statusChecking (handled ''/api/silent''))) = 404 \<and>
   getStatusHandler exampleServer 404 (statusChecking (handled ''/api/silent'')) = [1, 2, 3] \<and>
   map fst (snd (final (statusHandling exampleServer (statusChecking (handled ''/api/silent''), [])))) =
     [StatusHandler 1, StatusHandler 2] \<and>
   IsExited (fst (final (statusHandling exampleServer (statusChecking (handled ''/api/silent''), [])))) = True"
proof -
  let ?q = "statusChecking (handled ''/api/silent'')"
  let ?out = "statusHandling exampleServer (?q, [])"
  have st: "Status (Response ?q) = 404"
    by (simp add: model_defs example_defs Let_def)
  have fs: "getStatusHandler exampleServer 404 ?q = [1, 2, 3]"
    by (simp add: example_defs)
  have len: "length (snd (final ?out)) = 2"
    by (simp add: model_defs example_defs Let_def)
  have ex: "IsExited (fst (final ?out)) = True"
    by (simp add: model_defs example_defs Let_def)
  from status_handlers_run [OF refl refl refl, of exampleServer ?q "[]"]
  have "map fst (drop (length ([]::(nat, nat) journal)) (snd (final ?out))) =
        map StatusHandler (take (length (drop (length ([]::(nat, nat) journal)) (snd (final ?out))))
          (getStatusHandler exampleServer (Status (Response ?q)) ?q))"
    by blast
  with st fs len have "map fst (snd (final ?out)) = [StatusHandler 1, StatusHandler 2]"
    by simp
  with st fs ex show ?thesis by blast
qed

section \<open>The session cookie\<close>

text \<open>
  C5. Over the whole of \<^verbatim>\<open>CServeHTTP\<close>, the session id is written to the outbound
  cookie exactly when the dispatcher gets as far as the cookie step and there
  \<^verbatim>\<open>SessionCookieOutput\<close> is enabled, the session is dirty and the id of the session
  differs from the inbound session id of the request; what is written is the id of the
  session. The right-hand side reads the three conditions off the request as it is
  after the status handlers, which is where the code tests them. If any of the three
  fails, whatever the other two are, nothing is written; nothing is written either when
  a panic ends the request before that step.
\<close>

theorem session_cookie_written_iff:
  "filter isCookieSetSessionId (map fst (snd (final (CServeHTTP s w r)))) =
     (case serveStatus s (prepare s r) (newRequest s (prepare s r) w, []) of
        Normal st \<Rightarrow>
          if SessionCookieOutput (config s) \<and> IsDirty (Session (fst st)) \<and>
             MustId (Session (fst st)) \<noteq> GetSessionId (fst st)
          then [CookieSetSessionId (MustId (Session (fst st)))] else []
      | Panic e st \<Rightarrow> [])"
proof (cases "serveStatus s (prepare s r) (newRequest s (prepare s r) w, [])")
  case (Normal st)
  with serveStatus_quiet [of s "prepare s r" "newRequest s (prepare s r) w"]
  have "filter isCookieSetSessionId (map fst (snd st)) = []"
    by (simp add: quiet_filters)
  with Normal show ?thesis
    by (simp add: CServeHTTP_def Let_def deferred_cookie_calls serveRequest_def
        writeOutput_cookie_calls)
next
  case (Panic e st)
  with serveStatus_quiet [of s "prepare s r" "newRequest s (prepare s r) w"]
  have "filter isCookieSetSessionId (map fst (snd st)) = []"
    by (simp add: quiet_filters)
  with Panic show ?thesis
    by (simp add: CServeHTTP_def Let_def deferred_cookie_calls serveRequest_def)
qed

text \<open>
  On the concrete server the handler of \<^verbatim>\<open>/login\<close> makes the session dirty under
  a new id, and that id is written; the handler of \<^verbatim>\<open>/api/x\<close> leaves the session
  alone, and nothing is written.
\<close>

theorem session_cookie_written_iff_witness:
  "filter isCookieSetSessionId (map fst (served_journal ''/login'')) =
     [CookieSetSessionId ''s-new''] \<and>
   filter isCookieSetSessionId (map fst (served_journal ''/api/x'')) = []"
proof -
  have "filter isCookieSetSessionId (map fst (served_journal ''/login'')) =
     (case serveStatus exampleServer (prepare exampleServer (exampleRequest ''/login''))
             (newRequest exampleServer (prepare exampleServer (exampleRequest ''/login'')) [], []) of
        Normal st \<Rightarrow>
          if SessionCookieOutput (config exampleServer) \<and> IsDirty (Session (fst st)) \<and>
             MustId (Session (fst st)) \<noteq> GetSessionId (fst st)
          then [CookieSetSessionId (MustId (Session (fst st)))] else []
      | Panic e st \<Rightarrow> [])"
    unfolding served_journal_def by (rule session_cookie_written_iff)
  also have "\<dots> = [CookieSetSessionId ''s-new'']"
    by (simp add: model_defs example_defs Let_def)
  finally have a: "filter isCookieSetSessionId (map fst (served_journal ''/login'')) =
     [CookieSetSessionId ''s-new'']" .
  have "filter isCookieSetSessionId (map fst (served_journal ''/api/x'')) =
     (case serveStatus exampleServer (prepare exampleServer (exampleRequest ''/api/x''))
             (newRequest exampleServer (prepare exampleServer (exampleRequest ''/api/x'')) [], []) of
        Normal st \<Rightarrow>
          if SessionCookieOutput (config exampleServer) \<and> IsDirty (Session (fst st)) \<and>
             MustId (Session (fst st)) \<noteq> GetSessionId (fst st)
          then [CookieSetSessionId (MustId (Session (fst st)))] else []
      | Panic e st \<Rightarrow> [])"
    unfolding served_journal_def by (rule session_cookie_written_iff)
  also have "\<dots> = []"
    by (simp add: model_defs example_defs Let_def)
  finally have b: "filter isCookieSetSessionId (map fst (served_journal ''/api/x'')) = []" .
  from a b show ?thesis by (rule conjI)
qed

section \<open>Recovered panics\<close>

text \<open>
  C6. When the body of \<^verbatim>\<open>CServeHTTP\<close> panics and no error is attached to the
  request, the deferred function recovers the panic: \<^verbatim>\<open>CServeHTTP\<close> returns, exactly
  one error is handed to the error log, the status is 500 when it is logged and when
  \<^verbatim>\<open>CServeHTTP\<close> is done. The error logged is the panic value itself when that is an
  error with a code (so it is logged under that code); it has the internal-error code and
  the text of the panic value when that is an error without a code; it has the
  internal-error code and the rendering of the panic value when that is not an error.
\<close>

theorem recovered_panic_logged:
  assumes "serveRequest s (prepare s r) (newRequest s (prepare s r) w, []) = Panic exc st"
    and "error (fst st) = None"
  shows "returns (CServeHTTP s w r) \<and>
         filter isErrorLog (map fst (snd (final (CServeHTTP s w r)))) =
           [HandleErrorLog (recoveredError exc)] \<and>
         (\<forall>c p. (c, p) \<in> set (snd (final (CServeHTTP s w r))) \<and> isErrorLog c \<longrightarrow>
            Status (Response p) = 500) \<and>
         Status (Response (fst (final (CServeHTTP s w r)))) = 500 \<and>
         (\<forall>v. exc = ExcError v \<and> gerror_Code v \<noteq> CodeNil \<longrightarrow> recoveredError exc = v) \<and>
         (\<forall>v. exc = ExcError v \<and> gerror_Code v = CodeNil \<longrightarrow>
            gerror_Code (recoveredError exc) = CodeInternalError \<and>
            Error (recoveredError exc) = Error v) \<and>
         (\<forall>x. exc = ExcValue x \<longrightarrow>
            gerror_Code (recoveredError exc) = CodeInternalError \<and>
            Error (recoveredError exc) = x)"
proof -
  from assms(1) serveRequest_no_error_log [of s "prepare s r" "newRequest s (prepare s r) w"]
  have quiet: "filter isErrorLog (map fst (snd st)) = []"
    by simp
  then have none: "\<And>c p. (c, p) \<in> set (snd st) \<Longrightarrow> \<not> isErrorLog c"
    by (auto simp add: filter_empty_conv)
  have eq: "CServeHTTP s w r =
     Normal (closing (record_call (HandleErrorLog (recoveredError exc))
       (update (\<lambda>q. q\<lparr>LeaveTime := TimestampMilli s,
                        Response := WriteStatus StatusInternalServerError (Response q)\<rparr>) st)))"
    using assms by (simp add: CServeHTTP_def Let_def deferred_recover)
  have 1: "returns (CServeHTTP s w r)"
    by (simp add: eq)
  have 2: "filter isErrorLog (map fst (snd (final (CServeHTTP s w r)))) =
           [HandleErrorLog (recoveredError exc)]"
    using quiet by (simp add: eq closing_journal)
  have 3: "\<forall>c p. (c, p) \<in> set (snd (final (CServeHTTP s w r))) \<and> isErrorLog c \<longrightarrow>
            Status (Response p) = 500"
    using none
    by (auto simp add: eq closing_journal WriteStatus_def WriteHeader_def
        StatusInternalServerError_def)
  have 4: "Status (Response (fst (final (CServeHTTP s w r)))) = 500"
    by (simp add: eq WriteStatus_def WriteHeader_def StatusInternalServerError_def)
  have 5: "\<forall>v. exc = ExcError v \<and> gerror_Code v \<noteq> CodeNil \<longrightarrow> recoveredError exc = v"
    by (simp add: recoveredError_def)
  have 6: "\<forall>v. exc = ExcError v \<and> gerror_Code v = CodeNil \<longrightarrow>
            gerror_Code (recoveredError exc) = CodeInternalError \<and>
            Error (recoveredError exc) = Error v"
    by (simp add: recoveredError_def gerror_WrapCodeSkip_def)
  have 7: "\<forall>x. exc = ExcValue x \<longrightarrow>
            gerror_Code (recoveredError exc) = CodeInternalError \<and>
            Error (recoveredError exc) = x"
    by (simp add: recoveredError_def gerror_NewCodeSkipf_def)
  from 1 2 3 4 5 6 7 show ?thesis by blast
qed

text \<open>
  On the concrete server the handler of \<^verbatim>\<open>/api/boom\<close> panics with the plain error
  \<^verbatim>\<open>boom\<close>, the handler of \<^verbatim>\<open>/api/coded\<close> with an error of code 52, the handler
  of \<^verbatim>\<open>/api/value\<close> with the value 42.
\<close>

theorem recovered_panic_logged_witness:
  "returns (CServeHTTP exampleServer [] (exampleRequest ''/api/boom'')) \<and>
   filter isErrorLog (map fst (served_journal ''/api/boom'')) =
     [HandleErrorLog (GoError CodeInternalError ''boom'')] \<and>
   Status (Response (fst (final (CServeHTTP exampleServer [] (exampleRequest ''/api/boom''))))) = 500 \<and>
   filter isErrorLog (map fst (served_journal ''/api/coded'')) =
     [HandleErrorLog (GoError (CodeOther 52) ''db'')] \<and>
   filter isErrorLog (map fst (served_journal ''/api/value'')) =
     [HandleErrorLog (GoError CodeInternalError ''42'')]"
proof -
  let ?s = "exampleServer"
  let ?body = "\<lambda>p. serveRequest ?s (prepare ?s (exampleRequest p))
                 (newRequest ?s (prepare ?s (exampleRequest p)) [], [])"
  have b: "panicOf (?body ''/api/boom'') = Some (ExcError (GoError CodeNil ''boom''))"
    "error (fst (final (?body ''/api/boom''))) = None"
    by (simp_all add: model_defs example_defs Let_def)
  have c: "panicOf (?body ''/api/coded'') = Some (ExcError (GoError (CodeOther 52) ''db''))"
    "error (fst (final (?body ''/api/coded''))) = None"
    by (simp_all add: model_defs example_defs Let_def)
  have v: "panicOf (?body ''/api/value'') = Some (ExcValue ''42'')"
    "error (fst (final (?body ''/api/value''))) = None"
    by (simp_all add: model_defs example_defs Let_def)
  have e: "recoveredError (ExcError (GoError CodeNil ''boom'')) = GoError CodeInternalError ''boom''"
    "recoveredError (ExcError (GoError (CodeOther 52) ''db'')) = GoError (CodeOther 52) ''db''"
    "recoveredError (ExcValue ''42'') = GoError CodeInternalError ''42''"
    by (simp_all add: recoveredError_def gerror_WrapCodeSkip_def gerror_NewCodeSkipf_def)
  from recovered_panic_logged [OF panicOf_Panic [OF b(1)] b(2)] e(1)
  have rb: "returns (CServeHTTP ?s [] (exampleRequest ''/api/boom''))"
    "filter isErrorLog (map fst (served_journal ''/api/boom'')) =
       [HandleErrorLog (GoError CodeInternalError ''boom'')]"
    "Status (Response (fst (final (CServeHTTP ?s [] (exampleRequest ''/api/boom''))))) = 500"
    by (simp_all add: served_journal_def)
  from recovered_panic_logged [OF panicOf_Panic [OF c(1)] c(2)] e(2)
  have rc: "filter isErrorLog (map fst (served_journal ''/api/coded'')) =
       [HandleErrorLog (GoError (CodeOther 52) ''db'')]"
    by (simp add: served_journal_def)
  from recovered_panic_logged [OF panicOf_Panic [OF v(1)] v(2)] e(3)
  have rv: "filter isErrorLog (map fst (served_journal ''/api/value'')) =
       [HandleErrorLog (GoError CodeInternalError ''42'')]"
    by (simp add: served_journal_def)
  from rb rc rv show ?thesis by blast
qed

section \<open>Re-entrant dispatch\<close>

text \<open>
  When \<^verbatim>\<open>HandleContext\<close> returns, the replay has returned, and the result is the
  replay's result with the two saved indices written back. \<^verbatim>\<open>HandleContext\<close> returns
  exactly when the replay does.
\<close>

lemma HandleContext_Normal:
  assumes "HandleContext s st = Normal st'"
  shows "\<exists>st2. handleHTTPRequest s (Request (fst st))
                  (update (\<lambda>q. q\<lparr>Middleware := reset (Middleware q)\<rparr>) st) = Normal st2 \<and>
               st' = update (\<lambda>q. q\<lparr>Middleware := (Middleware q)
                        \<lparr>handlerIndex := handlerIndex (Middleware (fst st)),
                         handlerMDIndex := handlerMDIndex (Middleware (fst st))\<rparr>\<rparr>) st2"
proof (cases "handleHTTPRequest s (Request (fst st))
                (update (\<lambda>q. q\<lparr>Middleware := reset (Middleware q)\<rparr>) st)")
  case (Normal st2)
  with assms show ?thesis
    by (simp add: HandleContext_def Let_def)
next
  case (Panic e st2)
  with assms show ?thesis
    by (simp add: HandleContext_def Let_def)
qed

lemma HandleContext_returns:
  "returns (HandleContext s st) =
     returns (handleHTTPRequest s (Request (fst st))
                (update (\<lambda>q. q\<lparr>Middleware := reset (Middleware q)\<rparr>) st))"
  by (cases "handleHTTPRequest s (Request (fst st))
               (update (\<lambda>q. q\<lparr>Middleware := reset (Middleware q)\<rparr>) st)")
    (simp_all add: HandleContext_def Let_def)

text \<open>
  C3. Whatever cursor \<open>(i, j)\<close> the middleware chain holds when \<^verbatim>\<open>HandleContext\<close> is
  called, the chain holds \<open>(i, j)\<close> again when \<^verbatim>\<open>HandleContext\<close> has returned, however
  far the replay moved the cursor in between.
\<close>

theorem HandleContext_restores_cursor:
  assumes "HandleContext s st = Normal st'"
  shows "handlerIndex (Middleware (fst st')) = handlerIndex (Middleware (fst st)) \<and>
         handlerMDIndex (Middleware (fst st')) = handlerMDIndex (Middleware (fst st))"
  using HandleContext_Normal [OF assms] by auto

text \<open>
  On the concrete server the chain stands at \<open>(2, 1)\<close>, the replay of \<^verbatim>\<open>/api/x\<close> moves
  the cursor to \<open>(1, 0)\<close>, and the chain stands at \<open>(2, 1)\<close> after the call.
\<close>

theorem HandleContext_restores_cursor_witness:
  "returns (HandleContext exampleServer (midChain ''/api/x'' False, [])) \<and>
   handlerIndex (Middleware (midChain ''/api/x'' False)) = 2 \<and>
   handlerMDIndex (Middleware (midChain ''/api/x'' False)) = 1 \<and>
   handlerIndex (Middleware (fst (final (handleHTTPRequest exampleServer (exampleRequest ''/api/x'')
      ((midChain ''/api/x'' False)\<lparr>Middleware := reset (Middleware (midChain ''/api/x'' False))\<rparr>, []))))) = 1 \<and>
   handlerIndex (Middleware (fst (final (HandleContext exampleServer (midChain ''/api/x'' False, []))))) = 2 \<and>
   handlerMDIndex (Middleware (fst (final (HandleContext exampleServer (midChain ''/api/x'' False, []))))) = 1"
proof -
  have r: "returns (HandleContext exampleServer (midChain ''/api/x'' False, []))"
    by (simp add: model_defs example_defs Let_def)
  have a: "handlerIndex (Middleware (fst (final (handleHTTPRequest exampleServer (exampleRequest ''/api/x'')
      ((midChain ''/api/x'' False)\<lparr>Middleware := reset (Middleware (midChain ''/api/x'' False))\<rparr>, []))))) = 1"
    by (simp add: model_defs example_defs Let_def)
  have m: "handlerIndex (Middleware (midChain ''/api/x'' False)) = 2 \<and>
           handlerMDIndex (Middleware (midChain ''/api/x'' False)) = 1"
    by (simp add: midChain_def)
  from HandleContext_restores_cursor [OF returns_Normal [OF r]] r a m show ?thesis
    by simp
qed

text \<open>
  C10. \<^verbatim>\<open>HandleContext\<close> does not restore the served flag of the middleware chain.
  \<^verbatim>\<open>reset\<close> clears it before the replay, and after the replay only the two indices are
  written back: when \<^verbatim>\<open>HandleContext\<close> has returned, the served flag is the one the
  replay left, while the indices are the ones held before the call.
\<close>

theorem HandleContext_served_not_restored:
  assumes "HandleContext s st = Normal st'"
  shows "served (Middleware (fst (update (\<lambda>q. q\<lparr>Middleware := reset (Middleware q)\<rparr>) st))) = False \<and>
         (\<exists>st2. handleHTTPRequest s (Request (fst st))
                   (update (\<lambda>q. q\<lparr>Middleware := reset (Middleware q)\<rparr>) st) = Normal st2 \<and>
                 served (Middleware (fst st')) = served (Middleware (fst st2)) \<and>
                 handlerIndex (Middleware (fst st')) = handlerIndex (Middleware (fst st)) \<and>
                 handlerMDIndex (Middleware (fst st')) = handlerMDIndex (Middleware (fst st)))"
  using HandleContext_Normal [OF assms] by (auto simp add: reset_def)

text \<open>
  On the concrete server a chain that has served is re-dispatched to a path that nothing
  serves: the served flag is true before the call and false after it, the cursor is
  \<open>(2, 1)\<close> before and after.
\<close>

theorem HandleContext_served_not_restored_witness:
  "returns (HandleContext exampleServer (midChain ''/nowhere'' False, [])) \<and>
   served (Middleware (midChain ''/nowhere'' False)) = True \<and>
   served (Middleware (fst (final (HandleContext exampleServer (midChain ''/nowhere'' False, []))))) = False \<and>
   handlerIndex (Middleware (fst (final (HandleContext exampleServer (midChain ''/nowhere'' False, []))))) = 2 \<and>
   handlerMDIndex (Middleware (fst (final (HandleContext exampleServer (midChain ''/nowhere'' False, []))))) = 1"
proof -
  have r: "returns (HandleContext exampleServer (midChain ''/nowhere'' False, []))"
    by (simp add: model_defs example_defs Let_def)
  have m: "served (Middleware (midChain ''/nowhere'' False)) = True \<and>
           handlerIndex (Middleware (midChain ''/nowhere'' False)) = 2 \<and>
           handlerMDIndex (Middleware (midChain ''/nowhere'' False)) = 1"
    by (simp add: midChain_def)
  have a: "served (Middleware (fst (final (handleHTTPRequest exampleServer
             (Request (fst (midChain ''/nowhere'' False, [])))
             (update (\<lambda>q. q\<lparr>Middleware := reset (Middleware q)\<rparr>)
                (midChain ''/nowhere'' False, [])))))) = False"
    by (simp add: model_defs example_defs Let_def)
  from HandleContext_served_not_restored [OF returns_Normal [OF r]] a
  have "served (Middleware (fst (final (HandleContext exampleServer (midChain ''/nowhere'' False, []))))) = False \<and>
        handlerIndex (Middleware (fst (final (HandleContext exampleServer (midChain ''/nowhere'' False, []))))) =
          handlerIndex (Middleware (midChain ''/nowhere'' False)) \<and>
        handlerMDIndex (Middleware (fst (final (HandleContext exampleServer (midChain ''/nowhere'' False, []))))) =
          handlerMDIndex (Middleware (midChain ''/nowhere'' False))"
    by auto
  with r m show ?thesis by simp
qed

end
